theory Spec2Isabelle
  imports Main "HOL-Library.Word"
begin

section \<open>The pmemkv Python binding (\<^verbatim>\<open>src/pmemkv/kvengine.cc\<close>)\<close>

text \<open>
  The binding is one C++ file of wrappers around the C interface of libpmemkv, written
  against the CPython C interface. The embedding keeps the three parties apart:
  \<^item> the binding's own functions (the bridges \<open>value_callback\<close>, \<open>key_callback\<close>,
    \<open>key_value_callback\<close>, the methods \<open>pmemkv_NI_*\<close>, the module initialisation) are
    translated line by line;
  \<^item> the CPython runtime is a state record \<open>interp\<close> (error indicator, the exception
    being handled, the heap of view objects with their reference counts, the binding's
    global variables) and the handful of runtime calls the binding makes;
  \<^item> the native engine is a parameter \<open>engine\<close>: what each libpmemkv entry point answers.
\<close>

subsection \<open>C values\<close>

datatype cptr = NULL | Ptr nat

type_synonym bytes = string
type_synonym size_t = "64 word"

text \<open>
  Modelled from the spec: the status macros of \<^verbatim>\<open>libpmemkv.h\<close>, a header of the native
  engine that is not among the sources. The spec (section 7) lists the statuses in this
  order; the numbers are those of libpmemkv 1.0. The binding only compares them.
\<close>

definition PMEMKV_STATUS_OK :: int where "PMEMKV_STATUS_OK = 0"
definition PMEMKV_STATUS_UNKNOWN_ERROR :: int where "PMEMKV_STATUS_UNKNOWN_ERROR = 1"
definition PMEMKV_STATUS_NOT_FOUND :: int where "PMEMKV_STATUS_NOT_FOUND = 2"
definition PMEMKV_STATUS_NOT_SUPPORTED :: int where "PMEMKV_STATUS_NOT_SUPPORTED = 3"
definition PMEMKV_STATUS_INVALID_ARGUMENT :: int where "PMEMKV_STATUS_INVALID_ARGUMENT = 4"
definition PMEMKV_STATUS_CONFIG_PARSING_ERROR :: int where "PMEMKV_STATUS_CONFIG_PARSING_ERROR = 5"
definition PMEMKV_STATUS_CONFIG_TYPE_ERROR :: int where "PMEMKV_STATUS_CONFIG_TYPE_ERROR = 6"
definition PMEMKV_STATUS_STOPPED_BY_CB :: int where "PMEMKV_STATUS_STOPPED_BY_CB = 7"
definition PMEMKV_STATUS_OUT_OF_MEMORY :: int where "PMEMKV_STATUS_OUT_OF_MEMORY = 8"
definition PMEMKV_STATUS_WRONG_ENGINE_NAME :: int where "PMEMKV_STATUS_WRONG_ENGINE_NAME = 9"
definition PMEMKV_STATUS_TRANSACTION_SCOPE_ERROR :: int where
  "PMEMKV_STATUS_TRANSACTION_SCOPE_ERROR = 10"

subsection \<open>Exception classes and the dispatcher table\<close>

text \<open>
  An exception class of the host: one of the built-in classes the binding names, or a
  class made by \<open>PyErr_NewException\<close> / \<open>PyErr_NewExceptionWithDoc\<close> (its dotted name,
  its docstring, its base class; \<open>None\<close> is the C \<open>NULL\<close>).
\<close>

datatype pyexc =
    PyExc_KeyError
  | PyExc_MemoryError
  | PyExc_ValueError
  | PyExc_TypeError
  | PyExc_IndexError
  | PyExc_UnicodeDecodeError
  | NewException string "string option" "pyexc option"

text \<open>The struct \<open>Exception\<close> (lines 48-53); every field is a pointer, \<open>None\<close> is \<open>NULL\<close>.\<close>

record Exception =
  exception :: "pyexc option"
  object_name :: "string option"
  exception_name :: "string option"
  docstring :: "string option"

text \<open>
  The initialiser of the global \<open>ExceptionDispatcher\<close> (lines 55-88), an
  \<open>unordered_map<int, Exception>\<close>, kept as an association list in the initialiser's order.
\<close>

definition dynamic_entry :: "string \<Rightarrow> string \<Rightarrow> Exception" where
  "dynamic_entry name doc =
     \<lparr>exception = None, object_name = Some name,
      exception_name = Some (''pmemkv_NI.'' @ name), docstring = Some doc\<rparr>"

definition builtin_entry :: "pyexc \<Rightarrow> string \<Rightarrow> Exception" where
  "builtin_entry e doc =
     \<lparr>exception = Some e, object_name = None, exception_name = None, docstring = Some doc\<rparr>"

definition ExceptionDispatcher_initializer :: "(int \<times> Exception) list" where
  "ExceptionDispatcher_initializer =
    [(PMEMKV_STATUS_UNKNOWN_ERROR,
        dynamic_entry ''UnknownError'' ''Something unexpected happened''),
     (PMEMKV_STATUS_NOT_FOUND,
        builtin_entry PyExc_KeyError ''Database entry or config item not found''),
     (PMEMKV_STATUS_NOT_SUPPORTED,
        dynamic_entry ''NotSupported'' ''Function is not implemented by current engine''),
     (PMEMKV_STATUS_INVALID_ARGUMENT,
        dynamic_entry ''InvalidArgument'' ''Argument to function has wrong value''),
     (PMEMKV_STATUS_CONFIG_PARSING_ERROR,
        dynamic_entry ''ConfigParsingError'' ''Processing config failed''),
     (PMEMKV_STATUS_CONFIG_TYPE_ERROR,
        dynamic_entry ''ConfigTypeError'' ''Config item has different type than expected''),
     (PMEMKV_STATUS_STOPPED_BY_CB,
        dynamic_entry ''StoppedByCallback'' ''Callback function aborted in an unexpected way''),
     (PMEMKV_STATUS_OUT_OF_MEMORY,
        builtin_entry PyExc_MemoryError
          ''Operation failed because there is not enough memory (or space on the device)''),
     (PMEMKV_STATUS_WRONG_ENGINE_NAME,
        dynamic_entry ''WrongEngineName'' ''Engine name does not match any available engine''),
     (PMEMKV_STATUS_TRANSACTION_SCOPE_ERROR,
        dynamic_entry ''TransactionScopeError''
          ''An error with the scope of the libpmemobj transaction. This exception is defined for compatibility with pmemkv API and probably will never occur'')]"

definition memory_exception_msg :: string where
  "memory_exception_msg = ''Cannot allocate memory for internal objects''"

subsection \<open>Host objects\<close>

text \<open>
  \<open>PmemkvValueBufferObject\<close> (lines 92-96): a reference count (of \<open>PyObject_HEAD\<close>), the
  borrowed pointer \<open>value\<close> and its \<open>length\<close>. The field names carry the prefix \<open>buf_\<close>.
  \<open>Py_ssize_t\<close> and \<open>size_t\<close> have the same 64 bits, so the assignment
  \<open>entry->length = valuebyte\<close> keeps the word.
\<close>

record PmemkvValueBufferObject =
  ob_refcnt :: nat
  buf_value :: cptr
  buf_length :: size_t

text \<open>\<open>PmemkvObject\<close> (lines 171-174): the wrapper object holding the engine handle.\<close>

record PmemkvObject =
  db :: cptr

text \<open>
  What a host callable does with one invocation: it returns or raises, and it may keep
  references to some of its arguments (by position) beyond the call.
\<close>

datatype host_outcome = Return | Raise pyexc string

record host_effect =
  outcome :: host_outcome
  retained :: "nat list"

text \<open>
  A host callable: from the number of invocations made before and from what each argument
  reads as through the buffer protocol (pointer, length) to its effect.
\<close>

type_synonym callable = "nat \<Rightarrow> (cptr \<times> size_t) list \<Rightarrow> host_effect"

datatype pyobj =
    Py_None
  | PyBool bool
  | PyLong int
  | PyUnicode bytes
  | PyBytes bytes
  | PyFunction callable

text \<open>The module object under construction: the names added to it.\<close>

datatype modobj = TypeObject string | ExceptionObject pyexc

subsection \<open>The interpreter state\<close>

record interp =
  curexc_type :: "pyexc option"
  curexc_value :: "string option"
  exc_info :: "pyexc option"
  segfault :: bool
  heap :: "nat \<Rightarrow> PmemkvValueBufferObject option"
  next_id :: nat
  api_ok :: "bool list"
  calls :: "(cptr \<times> size_t) list list"
  native_calls :: "(string \<times> cptr) list"
  ExceptionDispatcher :: "(int \<times> Exception) list"
  PmemkvException :: "pyexc option"
  created :: "pyexc list"

text \<open>
  \<^item> \<open>curexc_type\<close>, \<open>curexc_value\<close>: the error indicator of the thread state.
  \<^item> \<open>exc_info\<close>: the exception the calling host code is handling at the moment (it
    called the binding from inside an \<open>except\<close> or \<open>finally\<close> block that an exception
    has entered), \<open>None\<close> when there is none. The binding never changes it.
  \<^item> \<open>segfault\<close>: the process has been ended by a call through a null pointer. Once it
    is set there is no program left: the other components and any answer mean nothing.
  \<^item> \<open>heap\<close>, \<open>next_id\<close>: the live view objects by address, and the next fresh address.
  \<^item> \<open>api_ok\<close>: the outcomes of the coming fallible runtime calls (allocations, module
    registration), consumed one per call; an exhausted list means success.
  \<^item> \<open>calls\<close>: every invocation of a host callable so far, with what its arguments read as.
  \<^item> \<open>native_calls\<close>: every call into libpmemkv so far, with the handle it was given.
  \<^item> \<open>ExceptionDispatcher\<close>, \<open>PmemkvException\<close>: the binding's two global variables.
  \<^item> \<open>created\<close>: the exception classes created so far, in order.
\<close>

definition initial_interp :: interp where
  "initial_interp =
     \<lparr>curexc_type = None, curexc_value = None, exc_info = None, segfault = False,
      heap = (\<lambda>_. None), next_id = 0,
      api_ok = [], calls = [], native_calls = [],
      ExceptionDispatcher = ExceptionDispatcher_initializer,
      PmemkvException = None, created = []\<rparr>"

subsection \<open>The runtime calls the binding makes\<close>

definition PyErr_Occurred :: "interp \<Rightarrow> pyexc option" where
  "PyErr_Occurred w = curexc_type w"

text \<open>
  The runtime decodes the C strings it is given as UTF-8, strictly: the bytes have to be
  a chain of well-formed sequences (one byte below \<open>0x80\<close>; a lead byte \<open>0xC2..0xDF\<close>,
  \<open>0xE0..0xEF\<close> or \<open>0xF0..0xF4\<close> with one, two or three continuation bytes; no overlong
  form, no surrogate, nothing above \<open>U+10FFFF\<close>). A \<open>str\<close> is kept as its UTF-8 bytes, so
  a successful decoding answers the bytes it was given.
\<close>

definition byte_in :: "char \<Rightarrow> nat \<Rightarrow> nat \<Rightarrow> bool" where
  "byte_in c lo hi \<longleftrightarrow> lo \<le> of_char c \<and> (of_char c :: nat) \<le> hi"

fun utf8_valid :: "bytes \<Rightarrow> bool" where
  "utf8_valid [] = True"
| "utf8_valid (a # bs) =
     (if byte_in a 0x00 0x7F then utf8_valid bs
      else if byte_in a 0xC2 0xDF then
        (case bs of
           b # r \<Rightarrow> byte_in b 0x80 0xBF \<and> utf8_valid r
         | _ \<Rightarrow> False)
      else if byte_in a 0xE0 0xEF then
        (case bs of
           b # c # r \<Rightarrow>
             byte_in b (if byte_in a 0xE0 0xE0 then 0xA0 else 0x80)
                       (if byte_in a 0xED 0xED then 0x9F else 0xBF)
             \<and> byte_in c 0x80 0xBF \<and> utf8_valid r
         | _ \<Rightarrow> False)
      else if byte_in a 0xF0 0xF4 then
        (case bs of
           b # c # d # r \<Rightarrow>
             byte_in b (if byte_in a 0xF0 0xF0 then 0x90 else 0x80)
                       (if byte_in a 0xF4 0xF4 then 0x8F else 0xBF)
             \<and> byte_in c 0x80 0xBF \<and> byte_in d 0x80 0xBF \<and> utf8_valid r
         | _ \<Rightarrow> False)
      else False)"

text \<open>
  \<open>PyUnicode_FromString(u)\<close> reads the C string \<open>u\<close> up to its terminating zero byte
  and decodes it; \<open>None\<close> stands for \<open>NULL\<close>, the decoding failed.
\<close>

definition PyUnicode_FromString :: "string \<Rightarrow> string option" where
  "PyUnicode_FromString u =
     (let s = takeWhile (\<lambda>c. of_char c \<noteq> (0 :: nat)) u
      in if utf8_valid s then Some s else None)"

text \<open>\<open>PyErr_Restore(type, value, NULL)\<close> puts the two into the error indicator.\<close>

definition PyErr_Restore :: "pyexc option \<Rightarrow> string option \<Rightarrow> interp \<Rightarrow> interp" where
  "PyErr_Restore t v w = w\<lparr>curexc_type := t, curexc_value := v\<rparr>"

text \<open>
  \<open>PyErr_SetString(type, message)\<close>, as CPython 3.11 does it. The message is decoded
  first; when that fails the decoder's \<open>UnicodeDecodeError\<close> is what is left in the
  error indicator (its report of codec, position and reason is not kept: the value is
  \<open>None\<close>). Otherwise the class and the message go into the error indicator. A \<open>NULL\<close>
  class is stored as it is while no exception is being handled, and \<open>PyErr_Occurred\<close>
  still answers \<open>NULL\<close> afterwards; while one is being handled the runtime builds the
  exception object at once, to chain it to the handled one, by calling the class: a call
  through \<open>NULL\<close>, which ends the process.
\<close>

definition PyErr_SetString :: "pyexc option \<Rightarrow> string \<Rightarrow> interp \<Rightarrow> interp" where
  "PyErr_SetString t message w =
     (case PyUnicode_FromString message of
        None \<Rightarrow> PyErr_Restore (Some PyExc_UnicodeDecodeError) None w
      | Some v \<Rightarrow>
          if t = None \<and> exc_info w \<noteq> None then w\<lparr>segfault := True\<rparr>
          else PyErr_Restore t (Some v) w)"

definition PyErr_NoMemory :: "interp \<Rightarrow> interp" where
  "PyErr_NoMemory w = w\<lparr>curexc_type := Some PyExc_MemoryError, curexc_value := None\<rparr>"

definition next_ok :: "interp \<Rightarrow> bool \<times> interp" where
  "next_ok w = (case api_ok w of [] \<Rightarrow> (True, w) | b # bs \<Rightarrow> (b, w\<lparr>api_ok := bs\<rparr>))"

text \<open>
  \<open>PyObject_New(PmemkvValueBufferObject, &PmemkvValueBufferType)\<close>: a fresh object with
  reference count 1, or \<open>NULL\<close> with \<open>MemoryError\<close> set. \<open>tp_init\<close> is not run; the two
  fields are written by the caller before anything reads them.
\<close>

definition PyObject_New :: "interp \<Rightarrow> nat option \<times> interp" where
  "PyObject_New w =
     (case next_ok w of
        (False, w1) \<Rightarrow> (None, PyErr_NoMemory w1)
      | (True, w1) \<Rightarrow>
          (Some (next_id w1),
           w1\<lparr>heap := (heap w1)(next_id w1 \<mapsto>
                  \<lparr>ob_refcnt = 1, buf_value = NULL, buf_length = 0\<rparr>),
              next_id := Suc (next_id w1)\<rparr>))"

definition Py_INCREF :: "nat \<Rightarrow> interp \<Rightarrow> interp" where
  "Py_INCREF i w =
     w\<lparr>heap := (heap w)(i := map_option (\<lambda>ob. ob\<lparr>ob_refcnt := Suc (ob_refcnt ob)\<rparr>) (heap w i))\<rparr>"

text \<open>
  \<open>Py_DECREF\<close>: the count drops by one; at zero \<open>PmemkvValueBuffer_dealloc\<close> frees the
  object (lines 150-153).
\<close>

definition Py_DECREF :: "nat \<Rightarrow> interp \<Rightarrow> interp" where
  "Py_DECREF i w =
     (case heap w i of
        None \<Rightarrow> w
      | Some ob \<Rightarrow>
          if ob_refcnt ob \<le> 1 then w\<lparr>heap := (heap w)(i := None)\<rparr>
          else w\<lparr>heap := (heap w)(i \<mapsto> ob\<lparr>ob_refcnt := ob_refcnt ob - 1\<rparr>)\<rparr>)"

definition Py_XDECREF :: "nat option \<Rightarrow> interp \<Rightarrow> interp" where
  "Py_XDECREF p w = (case p of None \<Rightarrow> w | Some i \<Rightarrow> Py_DECREF i w)"

text \<open>The two field assignments \<open>ob->value = p; ob->length = n;\<close> on a live object.\<close>

definition set_view :: "nat \<Rightarrow> cptr \<Rightarrow> size_t \<Rightarrow> interp \<Rightarrow> interp" where
  "set_view i p n w =
     w\<lparr>heap := (heap w)(i := map_option (\<lambda>ob. ob\<lparr>buf_value := p, buf_length := n\<rparr>) (heap w i))\<rparr>"

text \<open>
  The argument tuple: its slots, each \<open>NULL\<close> or the address of a view. \<open>PyTuple_New\<close>
  answers \<open>NULL\<close> with \<open>MemoryError\<close> set when the allocation fails. \<open>PyTuple_SetItem\<close>
  takes over the caller's reference; out of range it drops that reference, sets
  \<open>IndexError\<close> and answers \<open>-1\<close>. Freeing the tuple drops the reference of every slot.
\<close>

type_synonym tuple = "nat option list"

definition PyTuple_New :: "nat \<Rightarrow> interp \<Rightarrow> tuple option \<times> interp" where
  "PyTuple_New n w =
     (case next_ok w of
        (False, w1) \<Rightarrow> (None, PyErr_NoMemory w1)
      | (True, w1) \<Rightarrow> (Some (replicate n None), w1))"

definition PyTuple_SetItem :: "tuple \<Rightarrow> nat \<Rightarrow> nat \<Rightarrow> interp \<Rightarrow> int \<times> tuple \<times> interp" where
  "PyTuple_SetItem t pos ob w =
     (if pos < length t then (0, t[pos := Some ob], w)
      else (-1, t,
            PyErr_SetString (Some PyExc_IndexError) ''tuple assignment index out of range''
              (Py_DECREF ob w)))"

fun tuple_dealloc :: "tuple \<Rightarrow> interp \<Rightarrow> interp" where
  "tuple_dealloc [] w = w"
| "tuple_dealloc (x # xs) w = tuple_dealloc xs (Py_XDECREF x w)"

text \<open>
  \<open>PmemkvValueBufferObject_getbuffer\<close> (lines 104-124): what a reader of the view gets,
  the fields \<open>buf\<close> and \<open>len\<close> of the \<open>Py_buffer\<close>, read-only, one byte per item. The
  second argument says whether the \<open>view\<close> pointer is \<open>NULL\<close>; the answer is the return
  code, the filled buffer and the exception set. \<open>read_view\<close> is the (pointer, length)
  a reader gets from the object at an address; a freed object reads as the empty range.
\<close>

record Py_buffer =
  buf :: cptr
  len :: size_t
  readonly :: int
  itemsize :: int
  ndim :: int

definition PmemkvValueBufferObject_getbuffer ::
  "PmemkvValueBufferObject \<Rightarrow> bool \<Rightarrow> int \<times> Py_buffer option \<times> pyexc option" where
  "PmemkvValueBufferObject_getbuffer self view_is_null =
     (if view_is_null then (-1, None, Some PyExc_ValueError)
      else (0,
            Some \<lparr>buf = buf_value self, len = buf_length self, readonly = 1,
                  itemsize = 1, ndim = 1\<rparr>,
            None))"

definition read_view :: "interp \<Rightarrow> nat option \<Rightarrow> cptr \<times> size_t" where
  "read_view w slot =
     (case slot of
        None \<Rightarrow> (NULL, 0)
      | Some i \<Rightarrow>
          (case heap w i of
             None \<Rightarrow> (NULL, 0)
           | Some ob \<Rightarrow>
               (case PmemkvValueBufferObject_getbuffer ob False of
                  (_, Some b, _) \<Rightarrow> (buf b, len b)
                | (_, None, _) \<Rightarrow> (NULL, 0))))"

definition retain :: "tuple \<Rightarrow> nat \<Rightarrow> interp \<Rightarrow> interp" where
  "retain args pos w =
     (if pos < length args then
        (case args ! pos of None \<Rightarrow> w | Some i \<Rightarrow> Py_INCREF i w)
      else w)"

text \<open>
  \<open>PyObject_CallObject(callable, args)\<close>: the invocation is recorded, the callable's
  references are taken, and the answer is a result object, or \<open>NULL\<close> with the error
  indicator set to what the callable raised. An object that is not callable gives
  \<open>NULL\<close> with \<open>TypeError\<close>.
\<close>

definition PyObject_CallObject :: "pyobj \<Rightarrow> tuple \<Rightarrow> interp \<Rightarrow> pyobj option \<times> interp" where
  "PyObject_CallObject context args w =
     (case context of
        PyFunction f \<Rightarrow>
          (let views = map (read_view w) args;
               eff = f (length (calls w)) views;
               w1 = w\<lparr>calls := calls w @ [views]\<rparr>;
               w2 = fold (retain args) (retained eff) w1
           in case outcome eff of
                Return \<Rightarrow> (Some Py_None, w2)
              | Raise e msg \<Rightarrow> (None, PyErr_Restore (Some e) (Some msg) w2))
      | _ \<Rightarrow> (None, PyErr_SetString (Some PyExc_TypeError) ''object is not callable'' w))"

subsection \<open>The callback bridges (lines 235-309)\<close>

definition value_callback :: "cptr \<Rightarrow> size_t \<Rightarrow> pyobj \<Rightarrow> interp \<Rightarrow> interp" where
  "value_callback val valuebyte context w =
     (case PyObject_New w of
        (None, w1) \<Rightarrow> PyErr_SetString (Some PyExc_MemoryError) memory_exception_msg w1
      | (Some entry, w1) \<Rightarrow>
          (let w2 = set_view entry val valuebyte w1 in
           case PyTuple_New 1 w2 of
             (None, w3) \<Rightarrow>
               PyErr_SetString (Some PyExc_MemoryError) memory_exception_msg
                 (Py_DECREF entry w3)
           | (Some args, w3) \<Rightarrow>
               (case PyTuple_SetItem args 0 entry w3 of
                  (r, args1, w4) \<Rightarrow>
                    (let w5 = (if r = 0 then snd (PyObject_CallObject context args1 w4)
                               else w4)
                     in tuple_dealloc args1 w5))))"

definition key_callback ::
  "cptr \<Rightarrow> size_t \<Rightarrow> cptr \<Rightarrow> size_t \<Rightarrow> pyobj \<Rightarrow> interp \<Rightarrow> int \<times> interp" where
  "key_callback key keybytes val valuebyte context w =
     (let w1 = value_callback key keybytes context w in
      if PyErr_Occurred w1 \<noteq> None then (-1, w1) else (0, w1))"

definition key_value_callback ::
  "cptr \<Rightarrow> size_t \<Rightarrow> cptr \<Rightarrow> size_t \<Rightarrow> pyobj \<Rightarrow> interp \<Rightarrow> int \<times> interp" where
  "key_value_callback key keybytes val valuebyte context w =
     (case PyObject_New w of
        (value_buffer, w1) \<Rightarrow>
     (case PyObject_New w1 of
        (key_buffer, w2) \<Rightarrow>
     (case (value_buffer, key_buffer) of
        (Some vb, Some kb) \<Rightarrow>
          (let w3 = set_view kb key keybytes (set_view vb val valuebyte w2) in
           case PyTuple_New 2 w3 of
             (None, w4) \<Rightarrow> (-1, Py_DECREF kb (Py_DECREF vb w4))
           | (Some args, w4) \<Rightarrow>
               (let (r0, args1, w5) = PyTuple_SetItem args 0 kb w4;
                    (r1, args2, w6) =
                       (if r0 = 0 then PyTuple_SetItem args1 1 vb w5 else (-1, args1, w5));
                    w7 = (if r0 = 0 \<and> r1 = 0
                          then snd (PyObject_CallObject context args2 w6) else w6);
                    w8 = set_view vb NULL 0 (set_view kb NULL 0 w7);
                    w9 = tuple_dealloc args2 w8
                in if PyErr_Occurred w9 \<noteq> None then (-1, w9) else (0, w9)))
      | _ \<Rightarrow>
          (-1, PyErr_SetString (Some PyExc_MemoryError) memory_exception_msg
                 (Py_XDECREF key_buffer (Py_XDECREF value_buffer w2))))))"

subsection \<open>The native engine\<close>

text \<open>
  Modelled from the spec: libpmemkv, the native engine, an external library that is not
  among the sources. It is a parameter: for each entry point, the status it answers for
  a handle and keys at the time of the call, the count it stores, and the byte ranges
  (pointer, length) it hands to the callback. \<open>memory\<close> is the engine's memory, by
  address; \<open>errormsg\<close> is what \<open>pmemkv_errormsg()\<close> answers, a C string (the engine
  never answers \<open>NULL\<close> there). Every call into the engine
  is recorded in \<open>native_calls\<close> with the handle it was given.
\<close>

type_synonym range = "cptr \<times> size_t"

record engine =
  memory :: "nat \<Rightarrow> char"
  errormsg :: string
  e_put :: "cptr \<Rightarrow> bytes \<Rightarrow> bytes \<Rightarrow> int"
  e_get :: "cptr \<Rightarrow> bytes \<Rightarrow> range option \<times> int"
  e_exists :: "cptr \<Rightarrow> bytes \<Rightarrow> int"
  e_remove :: "cptr \<Rightarrow> bytes \<Rightarrow> int"
  e_count_all :: "cptr \<Rightarrow> int \<times> size_t"
  e_count_above :: "cptr \<Rightarrow> bytes \<Rightarrow> int \<times> size_t"
  e_count_below :: "cptr \<Rightarrow> bytes \<Rightarrow> int \<times> size_t"
  e_count_between :: "cptr \<Rightarrow> bytes \<Rightarrow> bytes \<Rightarrow> int \<times> size_t"
  e_get_all :: "cptr \<Rightarrow> (range \<times> range) list \<times> int"
  e_get_above :: "cptr \<Rightarrow> bytes \<Rightarrow> (range \<times> range) list \<times> int"
  e_get_below :: "cptr \<Rightarrow> bytes \<Rightarrow> (range \<times> range) list \<times> int"
  e_get_between :: "cptr \<Rightarrow> bytes \<Rightarrow> bytes \<Rightarrow> (range \<times> range) list \<times> int"

definition native :: "string \<Rightarrow> cptr \<Rightarrow> interp \<Rightarrow> interp" where
  "native name h w = w\<lparr>native_calls := native_calls w @ [(name, h)]\<rparr>"

text \<open>
  Modelled from the spec: the engine's iteration contract (sections 4.3, 5 and 6). The
  engine calls the callback once per matching entry, in its key order, and stops at the
  first call that answers non-zero, with the status "stopped by callback"; otherwise it
  ends with the engine's own status.
\<close>

fun iterate ::
  "(cptr \<Rightarrow> size_t \<Rightarrow> cptr \<Rightarrow> size_t \<Rightarrow> 'c \<Rightarrow> interp \<Rightarrow> int \<times> interp) \<Rightarrow> 'c \<Rightarrow>
   (range \<times> range) list \<Rightarrow> int \<Rightarrow> interp \<Rightarrow> int \<times> interp" where
  "iterate cb arg [] final w = (final, w)"
| "iterate cb arg (e # es) final w =
     (case cb (fst (fst e)) (snd (fst e)) (fst (snd e)) (snd (snd e)) arg w of
        (r, w1) \<Rightarrow>
          if r \<noteq> 0 then (PMEMKV_STATUS_STOPPED_BY_CB, w1) else iterate cb arg es final w1)"

definition pmemkv_close :: "cptr \<Rightarrow> interp \<Rightarrow> interp" where
  "pmemkv_close h w = native ''pmemkv_close'' h w"




definition pmemkv_count_all :: "engine \<Rightarrow> cptr \<Rightarrow> interp \<Rightarrow> (int \<times> size_t) \<times> interp" where
  "pmemkv_count_all eng h w = (e_count_all eng h, native ''pmemkv_count_all'' h w)"

definition pmemkv_count_above ::
  "engine \<Rightarrow> cptr \<Rightarrow> bytes \<Rightarrow> interp \<Rightarrow> (int \<times> size_t) \<times> interp" where
  "pmemkv_count_above eng h k w = (e_count_above eng h k, native ''pmemkv_count_above'' h w)"

definition pmemkv_count_below ::
  "engine \<Rightarrow> cptr \<Rightarrow> bytes \<Rightarrow> interp \<Rightarrow> (int \<times> size_t) \<times> interp" where
  "pmemkv_count_below eng h k w = (e_count_below eng h k, native ''pmemkv_count_below'' h w)"

definition pmemkv_count_between ::
  "engine \<Rightarrow> cptr \<Rightarrow> bytes \<Rightarrow> bytes \<Rightarrow> interp \<Rightarrow> (int \<times> size_t) \<times> interp" where
  "pmemkv_count_between eng h k1 k2 w =
     (e_count_between eng h k1 k2, native ''pmemkv_count_between'' h w)"

text \<open>
  \<open>pmemkv_get\<close>: the engine calls the callback at most once, with the value's range, and
  answers its status. The callback's \<open>void *\<close> context is the type parameter.
\<close>

definition pmemkv_get ::
  "engine \<Rightarrow> cptr \<Rightarrow> bytes \<Rightarrow> (cptr \<Rightarrow> size_t \<Rightarrow> 'c \<Rightarrow> interp \<Rightarrow> 'c \<times> interp) \<Rightarrow> 'c \<Rightarrow>
   interp \<Rightarrow> int \<times> 'c \<times> interp" where
  "pmemkv_get eng h k cb arg w =
     (case e_get eng h k of
        (None, st) \<Rightarrow> (st, arg, native ''pmemkv_get'' h w)
      | (Some (v, vb), st) \<Rightarrow>
          (case cb v vb arg (native ''pmemkv_get'' h w) of (arg1, w1) \<Rightarrow> (st, arg1, w1)))"

definition pmemkv_get_all ::
  "engine \<Rightarrow> cptr \<Rightarrow> (cptr \<Rightarrow> size_t \<Rightarrow> cptr \<Rightarrow> size_t \<Rightarrow> 'c \<Rightarrow> interp \<Rightarrow> int \<times> interp) \<Rightarrow> 'c \<Rightarrow>
   interp \<Rightarrow> int \<times> interp" where
  "pmemkv_get_all eng h cb arg w =
     iterate cb arg (fst (e_get_all eng h)) (snd (e_get_all eng h))
       (native ''pmemkv_get_all'' h w)"

definition pmemkv_get_above ::
  "engine \<Rightarrow> cptr \<Rightarrow> bytes \<Rightarrow>
   (cptr \<Rightarrow> size_t \<Rightarrow> cptr \<Rightarrow> size_t \<Rightarrow> 'c \<Rightarrow> interp \<Rightarrow> int \<times> interp) \<Rightarrow> 'c \<Rightarrow>
   interp \<Rightarrow> int \<times> interp" where
  "pmemkv_get_above eng h k cb arg w =
     iterate cb arg (fst (e_get_above eng h k)) (snd (e_get_above eng h k))
       (native ''pmemkv_get_above'' h w)"

definition pmemkv_get_below ::
  "engine \<Rightarrow> cptr \<Rightarrow> bytes \<Rightarrow>
   (cptr \<Rightarrow> size_t \<Rightarrow> cptr \<Rightarrow> size_t \<Rightarrow> 'c \<Rightarrow> interp \<Rightarrow> int \<times> interp) \<Rightarrow> 'c \<Rightarrow>
   interp \<Rightarrow> int \<times> interp" where
  "pmemkv_get_below eng h k cb arg w =
     iterate cb arg (fst (e_get_below eng h k)) (snd (e_get_below eng h k))
       (native ''pmemkv_get_below'' h w)"

definition pmemkv_get_between ::
  "engine \<Rightarrow> cptr \<Rightarrow> bytes \<Rightarrow> bytes \<Rightarrow>
   (cptr \<Rightarrow> size_t \<Rightarrow> cptr \<Rightarrow> size_t \<Rightarrow> 'c \<Rightarrow> interp \<Rightarrow> int \<times> interp) \<Rightarrow> 'c \<Rightarrow>
   interp \<Rightarrow> int \<times> interp" where
  "pmemkv_get_between eng h k1 k2 cb arg w =
     iterate cb arg (fst (e_get_between eng h k1 k2)) (snd (e_get_between eng h k1 k2))
       (native ''pmemkv_get_between'' h w)"

subsection \<open>Argument parsing and result building\<close>

text \<open>
  \<open>PyArg_ParseTuple\<close> with the five formats the binding uses. The unit \<open>s*\<close> takes a
  \<open>str\<close> (as its UTF-8 bytes) or a bytes object; \<open>O\<close> takes any object. A mismatch gives
  \<open>NULL\<close> with \<open>TypeError\<close>.
\<close>

definition buffer_of :: "pyobj \<Rightarrow> bytes option" where
  "buffer_of ob = (case ob of PyUnicode s \<Rightarrow> Some s | PyBytes b \<Rightarrow> Some b | _ \<Rightarrow> None)"

definition parse_s :: "pyobj list \<Rightarrow> bytes option" where
  "parse_s args = (case args of [a] \<Rightarrow> buffer_of a | _ \<Rightarrow> None)"

definition parse_ss :: "pyobj list \<Rightarrow> (bytes \<times> bytes) option" where
  "parse_ss args =
     (case args of
        [a, b] \<Rightarrow>
          (case (buffer_of a, buffer_of b) of (Some x, Some y) \<Rightarrow> Some (x, y) | _ \<Rightarrow> None)
      | _ \<Rightarrow> None)"

definition parse_O :: "pyobj list \<Rightarrow> pyobj option" where
  "parse_O args = (case args of [a] \<Rightarrow> Some a | _ \<Rightarrow> None)"

definition parse_sO :: "pyobj list \<Rightarrow> (bytes \<times> pyobj) option" where
  "parse_sO args =
     (case args of
        [a, c] \<Rightarrow> (case buffer_of a of Some x \<Rightarrow> Some (x, c) | None \<Rightarrow> None)
      | _ \<Rightarrow> None)"

definition parse_ssO :: "pyobj list \<Rightarrow> (bytes \<times> bytes \<times> pyobj) option" where
  "parse_ssO args =
     (case args of
        [a, b, c] \<Rightarrow>
          (case (buffer_of a, buffer_of b) of
             (Some x, Some y) \<Rightarrow> Some (x, y, c)
           | _ \<Rightarrow> None)
      | _ \<Rightarrow> None)"

definition bad_args :: "interp \<Rightarrow> pyobj option \<times> interp" where
  "bad_args w = (None, PyErr_SetString (Some PyExc_TypeError) ''bad arguments'' w)"

text \<open>
  \<open>Py_BuildValue("i", cnt)\<close> with \<open>size_t cnt\<close>: the format unit \<open>i\<close> reads a C \<open>int\<close>
  from the variable arguments, that is the low 32 bits of the 64-bit count, signed.
\<close>

definition Py_BuildValue_i :: "size_t \<Rightarrow> pyobj" where
  "Py_BuildValue_i cnt = PyLong (sint (ucast cnt :: 32 word))"

text \<open>
  \<open>Py_BuildValue("s#", data, size)\<close> decodes the \<open>size\<close> bytes at \<open>data\<close> (a zero byte
  among them is a character like any other): the \<open>str\<close> of these bytes, or \<open>NULL\<close> with
  the decoder's \<open>UnicodeDecodeError\<close> when they are not well-formed UTF-8.
\<close>

definition Py_BuildValue_s :: "bytes \<Rightarrow> interp \<Rightarrow> pyobj option \<times> interp" where
  "Py_BuildValue_s b w =
     (if utf8_valid b then (Some (PyUnicode b), w)
      else (None, PyErr_Restore (Some PyExc_UnicodeDecodeError) None w))"



subsection \<open>The dispatcher lookup\<close>

text \<open>
  \<open>ExceptionDispatcher[code]\<close> is \<open>std::unordered_map::operator[]\<close>: the entry of the
  code, and for a code without entry a value-initialised \<open>Exception\<close> (four null
  pointers) that is inserted into the table.
\<close>

definition null_Exception :: Exception where
  "null_Exception =
     \<lparr>exception = None, object_name = None, exception_name = None, docstring = None\<rparr>"

definition dispatcher_at :: "int \<Rightarrow> interp \<Rightarrow> Exception \<times> interp" where
  "dispatcher_at code w =
     (case map_of (ExceptionDispatcher w) code of
        Some e \<Rightarrow> (e, w)
      | None \<Rightarrow>
          (null_Exception,
           w\<lparr>ExceptionDispatcher := ExceptionDispatcher w @ [(code, null_Exception)]\<rparr>))"

text \<open>
  The lines every method ends its failure path with:
  \<^verbatim>\<open>PyErr_SetString(ExceptionDispatcher[result].exception, pmemkv_errormsg()); return NULL;\<close>
\<close>

definition raise_status :: "engine \<Rightarrow> int \<Rightarrow> interp \<Rightarrow> pyobj option \<times> interp" where
  "raise_status eng result w =
     (case dispatcher_at result w of
        (e, w1) \<Rightarrow> (None, PyErr_SetString (exception e) (errormsg eng) w1))"

subsection \<open>Lifecycle (lines 182-233)\<close>


definition pmemkv_NI_Stop ::
  "PmemkvObject \<Rightarrow> interp \<Rightarrow> pyobj option \<times> PmemkvObject \<times> interp" where
  "pmemkv_NI_Stop self w =
     (let w1 = (if db self \<noteq> NULL then pmemkv_close (db self) w else w)
      in (Some Py_None, self\<lparr>db := NULL\<rparr>, w1))"

definition Pmemkv_dealloc :: "PmemkvObject \<Rightarrow> interp \<Rightarrow> interp" where
  "Pmemkv_dealloc self w = snd (snd (pmemkv_NI_Stop self w))"

subsection \<open>The methods with a callback (lines 311-381, 440-510, 571-587)\<close>

text \<open>
  What every method with a callback does once the native call is back:
  \<^verbatim>\<open>if (PyErr_Occurred() != NULL) return NULL;\<close>
  \<^verbatim>\<open>if (result != PMEMKV_STATUS_OK) { PyErr_SetString(...); return NULL; }\<close>
  \<^verbatim>\<open>Py_RETURN_NONE;\<close>
\<close>

definition after_native :: "engine \<Rightarrow> int \<Rightarrow> interp \<Rightarrow> pyobj option \<times> interp" where
  "after_native eng result w =
     (if PyErr_Occurred w \<noteq> None then (None, w)
      else if result \<noteq> PMEMKV_STATUS_OK then raise_status eng result w
      else (Some Py_None, w))"

definition pmemkv_NI_GetKeys ::
  "engine \<Rightarrow> PmemkvObject \<Rightarrow> pyobj list \<Rightarrow> interp \<Rightarrow> pyobj option \<times> interp" where
  "pmemkv_NI_GetKeys eng self args w =
     (case parse_O args of
        None \<Rightarrow> bad_args w
      | Some python_callback \<Rightarrow>
          (case pmemkv_get_all eng (db self) key_callback python_callback w of
             (result, w1) \<Rightarrow> after_native eng result w1))"

definition pmemkv_NI_GetKeysAbove ::
  "engine \<Rightarrow> PmemkvObject \<Rightarrow> pyobj list \<Rightarrow> interp \<Rightarrow> pyobj option \<times> interp" where
  "pmemkv_NI_GetKeysAbove eng self args w =
     (case parse_sO args of
        None \<Rightarrow> bad_args w
      | Some (key, python_callback) \<Rightarrow>
          (case pmemkv_get_above eng (db self) key key_callback python_callback w of
             (result, w1) \<Rightarrow> after_native eng result w1))"

definition pmemkv_NI_GetKeysBelow ::
  "engine \<Rightarrow> PmemkvObject \<Rightarrow> pyobj list \<Rightarrow> interp \<Rightarrow> pyobj option \<times> interp" where
  "pmemkv_NI_GetKeysBelow eng self args w =
     (case parse_sO args of
        None \<Rightarrow> bad_args w
      | Some (key, python_callback) \<Rightarrow>
          (case pmemkv_get_below eng (db self) key key_callback python_callback w of
             (result, w1) \<Rightarrow> after_native eng result w1))"

definition pmemkv_NI_GetKeysBetween ::
  "engine \<Rightarrow> PmemkvObject \<Rightarrow> pyobj list \<Rightarrow> interp \<Rightarrow> pyobj option \<times> interp" where
  "pmemkv_NI_GetKeysBetween eng self args w =
     (case parse_ssO args of
        None \<Rightarrow> bad_args w
      | Some (key1, key2, python_callback) \<Rightarrow>
          (case pmemkv_get_between eng (db self) key1 key2 key_callback python_callback w of
             (result, w1) \<Rightarrow> after_native eng result w1))"

definition pmemkv_NI_GetAll ::
  "engine \<Rightarrow> PmemkvObject \<Rightarrow> pyobj list \<Rightarrow> interp \<Rightarrow> pyobj option \<times> interp" where
  "pmemkv_NI_GetAll eng self args w =
     (case parse_O args of
        None \<Rightarrow> bad_args w
      | Some python_callback \<Rightarrow>
          (case pmemkv_get_all eng (db self) key_value_callback python_callback w of
             (result, w1) \<Rightarrow> after_native eng result w1))"

definition pmemkv_NI_GetAbove ::
  "engine \<Rightarrow> PmemkvObject \<Rightarrow> pyobj list \<Rightarrow> interp \<Rightarrow> pyobj option \<times> interp" where
  "pmemkv_NI_GetAbove eng self args w =
     (case parse_sO args of
        None \<Rightarrow> bad_args w
      | Some (key, python_callback) \<Rightarrow>
          (case pmemkv_get_above eng (db self) key key_value_callback python_callback w of
             (result, w1) \<Rightarrow> after_native eng result w1))"

definition pmemkv_NI_GetBelow ::
  "engine \<Rightarrow> PmemkvObject \<Rightarrow> pyobj list \<Rightarrow> interp \<Rightarrow> pyobj option \<times> interp" where
  "pmemkv_NI_GetBelow eng self args w =
     (case parse_sO args of
        None \<Rightarrow> bad_args w
      | Some (key, python_callback) \<Rightarrow>
          (case pmemkv_get_below eng (db self) key key_value_callback python_callback w of
             (result, w1) \<Rightarrow> after_native eng result w1))"

definition pmemkv_NI_GetBetween ::
  "engine \<Rightarrow> PmemkvObject \<Rightarrow> pyobj list \<Rightarrow> interp \<Rightarrow> pyobj option \<times> interp" where
  "pmemkv_NI_GetBetween eng self args w =
     (case parse_ssO args of
        None \<Rightarrow> bad_args w
      | Some (key1, key2, python_callback) \<Rightarrow>
          (case pmemkv_get_between eng (db self) key1 key2 key_value_callback
                  python_callback w of
             (result, w1) \<Rightarrow> after_native eng result w1))"

definition pmemkv_NI_Get ::
  "engine \<Rightarrow> PmemkvObject \<Rightarrow> pyobj list \<Rightarrow> interp \<Rightarrow> pyobj option \<times> interp" where
  "pmemkv_NI_Get eng self args w =
     (case parse_sO args of
        None \<Rightarrow> bad_args w
      | Some (key, python_callback) \<Rightarrow>
          (case pmemkv_get eng (db self) key
                  (\<lambda>v vb context w0. (context, value_callback v vb context w0))
                  python_callback w of
             (result, _, w1) \<Rightarrow> after_native eng result w1))"

subsection \<open>The count methods (lines 383-438)\<close>

definition count_result :: "engine \<Rightarrow> int \<times> size_t \<Rightarrow> interp \<Rightarrow> pyobj option \<times> interp" where
  "count_result eng rc w =
     (case rc of
        (result, cnt) \<Rightarrow>
          if result \<noteq> PMEMKV_STATUS_OK then raise_status eng result w
          else (Some (Py_BuildValue_i cnt), w))"

definition pmemkv_NI_CountAll ::
  "engine \<Rightarrow> PmemkvObject \<Rightarrow> interp \<Rightarrow> pyobj option \<times> interp" where
  "pmemkv_NI_CountAll eng self w =
     (case pmemkv_count_all eng (db self) w of (rc, w1) \<Rightarrow> count_result eng rc w1)"

definition pmemkv_NI_CountAbove ::
  "engine \<Rightarrow> PmemkvObject \<Rightarrow> pyobj list \<Rightarrow> interp \<Rightarrow> pyobj option \<times> interp" where
  "pmemkv_NI_CountAbove eng self args w =
     (case parse_s args of
        None \<Rightarrow> bad_args w
      | Some key \<Rightarrow>
          (case pmemkv_count_above eng (db self) key w of
             (rc, w1) \<Rightarrow> count_result eng rc w1))"

definition pmemkv_NI_CountBelow ::
  "engine \<Rightarrow> PmemkvObject \<Rightarrow> pyobj list \<Rightarrow> interp \<Rightarrow> pyobj option \<times> interp" where
  "pmemkv_NI_CountBelow eng self args w =
     (case parse_s args of
        None \<Rightarrow> bad_args w
      | Some key \<Rightarrow>
          (case pmemkv_count_below eng (db self) key w of
             (rc, w1) \<Rightarrow> count_result eng rc w1))"

definition pmemkv_NI_CountBetween ::
  "engine \<Rightarrow> PmemkvObject \<Rightarrow> pyobj list \<Rightarrow> interp \<Rightarrow> pyobj option \<times> interp" where
  "pmemkv_NI_CountBetween eng self args w =
     (case parse_ss args of
        None \<Rightarrow> bad_args w
      | Some (key1, key2) \<Rightarrow>
          (case pmemkv_count_between eng (db self) key1 key2 w of
             (rc, w1) \<Rightarrow> count_result eng rc w1))"

subsection \<open>Exists, put, get\_string, remove (lines 512-601)\<close>







subsection \<open>Module initialisation (lines 649-693)\<close>

text \<open>
  The runtime calls of \<open>PyInit__pmemkv\<close>. Each can fail; \<open>PyModule_AddObject\<close> also fails
  on a \<open>NULL\<close> value. A class made by \<open>PyErr_NewException\<close> is recorded in \<open>created\<close>.
\<close>

type_synonym module = "(string \<times> modobj) list"

definition PyType_Ready :: "interp \<Rightarrow> bool \<times> interp" where
  "PyType_Ready w = next_ok w"

definition PyModule_Create :: "interp \<Rightarrow> module option \<times> interp" where
  "PyModule_Create w =
     (case next_ok w of
        (False, w1) \<Rightarrow> (None, PyErr_NoMemory w1)
      | (True, w1) \<Rightarrow> (Some [], w1))"

definition PyModule_AddObject ::
  "module \<Rightarrow> string option \<Rightarrow> modobj option \<Rightarrow> interp \<Rightarrow> int \<times> module \<times> interp" where
  "PyModule_AddObject m name val w =
     (case (name, val) of
        (Some n, Some v) \<Rightarrow>
          (case next_ok w of
             (False, w1) \<Rightarrow> (-1, m, PyErr_NoMemory w1)
           | (True, w1) \<Rightarrow> (0, m @ [(n, v)], w1))
      | _ \<Rightarrow> (-1, m, w))"

definition PyErr_NewExceptionWithDoc ::
  "string option \<Rightarrow> string option \<Rightarrow> pyexc option \<Rightarrow> interp \<Rightarrow> pyexc option \<times> interp" where
  "PyErr_NewExceptionWithDoc name doc base w =
     (case name of
        None \<Rightarrow> (None, w)
      | Some n \<Rightarrow>
          (case next_ok w of
             (False, w1) \<Rightarrow> (None, PyErr_NoMemory w1)
           | (True, w1) \<Rightarrow>
               (Some (NewException n doc base),
                w1\<lparr>created := created w1 @ [NewException n doc base]\<rparr>)))"

definition PyErr_NewException ::
  "string option \<Rightarrow> pyexc option \<Rightarrow> interp \<Rightarrow> pyexc option \<times> interp" where
  "PyErr_NewException name base w = PyErr_NewExceptionWithDoc name None base w"

text \<open>
  The loop \<^verbatim>\<open>for (auto &e : ExceptionDispatcher)\<close> of lines 670-680 over the entries:
  an entry whose \<open>exception\<close> is \<open>NULL\<close> gets a new class under the base and is added to
  the module. The first component is \<open>False\<close> when the loop leaves through \<open>throw\<close>.
  An \<open>unordered_map\<close> is visited in an unspecified order; the list is visited in its own.
\<close>

fun register_exceptions ::
  "pyexc option \<Rightarrow> (int \<times> Exception) list \<Rightarrow> module \<Rightarrow> interp \<Rightarrow>
   bool \<times> (int \<times> Exception) list \<times> module \<times> interp" where
  "register_exceptions base [] m w = (True, [], m, w)"
| "register_exceptions base (ce # es) m w =
     (if exception (snd ce) = None then
        (case PyErr_NewExceptionWithDoc (exception_name (snd ce)) (docstring (snd ce)) base w of
           (x, w1) \<Rightarrow>
             (case PyModule_AddObject m (object_name (snd ce)) (map_option ExceptionObject x) w1 of
                (r, m1, w2) \<Rightarrow>
                  if r < 0 then (False, (fst ce, (snd ce)\<lparr>exception := x\<rparr>) # es, m1, w2)
                  else
                    (case register_exceptions base es m1 w2 of
                       (ok, es1, m2, w3) \<Rightarrow>
                         (ok, (fst ce, (snd ce)\<lparr>exception := x\<rparr>) # es1, m2, w3))))
      else
        (case register_exceptions base es m w of
           (ok, es1, m2, w3) \<Rightarrow> (ok, ce # es1, m2, w3)))"

text \<open>
  \<open>PyInit__pmemkv\<close>. A \<open>throw;\<close> with no exception being handled calls
  \<open>std::terminate\<close>; the handler \<open>catch (...)\<close> is not entered by it.
\<close>

datatype init_result = Module module | Init_NULL | Terminate

definition PyInit__pmemkv :: "interp \<Rightarrow> init_result \<times> interp" where
  "PyInit__pmemkv w =
     (case PyType_Ready w of
        (False, w1) \<Rightarrow> (Init_NULL, w1)
      | (True, w1) \<Rightarrow>
     (case PyModule_Create w1 of
        (None, w2) \<Rightarrow> (Init_NULL, w2)
      | (Some m, w2) \<Rightarrow>
     (case PyModule_AddObject m (Some ''pmemkv_NI'') (Some (TypeObject ''pmemkv.pmemkv_NI'')) w2 of
        (r0, m1, w3) \<Rightarrow>
     if r0 < 0 then (Terminate, w3) else
     (case PyErr_NewException (Some ''pmemkv_NI.PmemkvException'') None w3 of
        (x, w4) \<Rightarrow>
     (case PyModule_AddObject m1 (Some ''Error'') (map_option ExceptionObject x)
             (w4\<lparr>PmemkvException := x\<rparr>) of
        (r1, m2, w5) \<Rightarrow>
     if r1 < 0 then (Terminate, w5) else
     (case register_exceptions (PmemkvException w5) (ExceptionDispatcher w5) m2 w5 of
        (ok, es, m3, w6) \<Rightarrow>
          if ok then (Module m3, w6\<lparr>ExceptionDispatcher := es\<rparr>)
          else (Terminate, w6\<lparr>ExceptionDispatcher := es\<rparr>)))))))"

subsection \<open>Example inputs\<close>

text \<open>
  A small engine, three entries to iterate over, and host callables: one that raises on
  its second invocation, one that keeps every view it is given.
\<close>

definition example_entries :: "(range \<times> range) list" where
  "example_entries =
     [((Ptr 10, 1), (Ptr 20, 2)), ((Ptr 30, 1), (Ptr 40, 2)), ((Ptr 50, 1), (Ptr 60, 2))]"

definition example_status :: "bytes \<Rightarrow> int" where
  "example_status k =
     (if k = ''a'' then PMEMKV_STATUS_OK
      else if k = ''?'' then PMEMKV_STATUS_INVALID_ARGUMENT
      else PMEMKV_STATUS_NOT_FOUND)"

definition example_engine :: engine where
  "example_engine =
     \<lparr>memory = (\<lambda>a. if a = 4096 then CHR ''o'' else CHR ''k''),
      errormsg = ''engine error'',
      e_put = (\<lambda>h k v. PMEMKV_STATUS_OK),
      e_get = (\<lambda>h k. if k = ''a'' then (Some (Ptr 4096, 2), PMEMKV_STATUS_OK)
                      else (None, example_status k)),
      e_exists = (\<lambda>h k. example_status k),
      e_remove = (\<lambda>h k. example_status k),
      e_count_all = (\<lambda>h. (PMEMKV_STATUS_OK, 3)),
      e_count_above = (\<lambda>h k. (PMEMKV_STATUS_OK, 3)),
      e_count_below = (\<lambda>h k. (PMEMKV_STATUS_OK, 3)),
      e_count_between = (\<lambda>h k1 k2. (PMEMKV_STATUS_OK, 3)),
      e_get_all = (\<lambda>h. (example_entries, PMEMKV_STATUS_OK)),
      e_get_above = (\<lambda>h k. (example_entries, PMEMKV_STATUS_OK)),
      e_get_below = (\<lambda>h k. (example_entries, PMEMKV_STATUS_OK)),
      e_get_between = (\<lambda>h k1 k2. (example_entries, PMEMKV_STATUS_OK))\<rparr>"

definition raise_on_second :: callable where
  "raise_on_second n views =
     \<lparr>outcome = (if n = 1 then Raise PyExc_ValueError ''boom'' else Return), retained = []\<rparr>"

definition keep_all :: callable where
  "keep_all n views = \<lparr>outcome = Return, retained = [0, 1]\<rparr>"


section \<open>Properties\<close>

lemmas status_defs =
  PMEMKV_STATUS_OK_def PMEMKV_STATUS_UNKNOWN_ERROR_def PMEMKV_STATUS_NOT_FOUND_def
  PMEMKV_STATUS_NOT_SUPPORTED_def PMEMKV_STATUS_INVALID_ARGUMENT_def
  PMEMKV_STATUS_CONFIG_PARSING_ERROR_def PMEMKV_STATUS_CONFIG_TYPE_ERROR_def
  PMEMKV_STATUS_STOPPED_BY_CB_def PMEMKV_STATUS_OUT_OF_MEMORY_def
  PMEMKV_STATUS_WRONG_ENGINE_NAME_def PMEMKV_STATUS_TRANSACTION_SCOPE_ERROR_def

lemma native_fields [simp]:
  "curexc_type (native name h w) = curexc_type w"
  "curexc_value (native name h w) = curexc_value w"
  "exc_info (native name h w) = exc_info w"
  "segfault (native name h w) = segfault w"
  "heap (native name h w) = heap w"
  "next_id (native name h w) = next_id w"
  "api_ok (native name h w) = api_ok w"
  "calls (native name h w) = calls w"
  "native_calls (native name h w) = native_calls w @ [(name, h)]"
  "ExceptionDispatcher (native name h w) = ExceptionDispatcher w"
  "PmemkvException (native name h w) = PmemkvException w"
  "created (native name h w) = created w"
  by (simp_all add: native_def)


subsection \<open>Setting the error indicator\<close>

text \<open>The messages the binding and the runtime write themselves are plain ASCII.\<close>

lemma PyUnicode_FromString_messages:
  "PyUnicode_FromString memory_exception_msg = Some memory_exception_msg"
  "PyUnicode_FromString ''tuple assignment index out of range'' =
     Some ''tuple assignment index out of range''"
  "PyUnicode_FromString ''object is not callable'' = Some ''object is not callable''"
  "PyUnicode_FromString ''bad arguments'' = Some ''bad arguments''"
  by (simp_all add: PyUnicode_FromString_def memory_exception_msg_def byte_in_def)

lemma PyErr_SetString_class:
  "PyUnicode_FromString message = Some v \<Longrightarrow>
   PyErr_SetString (Some e) message w = w\<lparr>curexc_type := Some e, curexc_value := Some v\<rparr>"
  by (simp add: PyErr_SetString_def PyErr_Restore_def)

lemma PyErr_SetString_null:
  "PyUnicode_FromString message = Some v \<Longrightarrow> exc_info w = None \<Longrightarrow>
   PyErr_SetString None message w = w\<lparr>curexc_type := None, curexc_value := Some v\<rparr>"
  "PyUnicode_FromString message = Some v \<Longrightarrow> exc_info w \<noteq> None \<Longrightarrow>
   PyErr_SetString None message w = w\<lparr>segfault := True\<rparr>"
  by (auto simp add: PyErr_SetString_def PyErr_Restore_def)


lemmas PyErr_SetString_msgs =
  PyErr_SetString_class [OF PyUnicode_FromString_messages(1)]
  PyErr_SetString_class [OF PyUnicode_FromString_messages(2)]
  PyErr_SetString_class [OF PyUnicode_FromString_messages(3)]
  PyErr_SetString_class [OF PyUnicode_FromString_messages(4)]

lemma PyErr_SetString_frame [simp]:
  "exc_info (PyErr_SetString t message w) = exc_info w"
  "heap (PyErr_SetString t message w) = heap w"
  "next_id (PyErr_SetString t message w) = next_id w"
  "api_ok (PyErr_SetString t message w) = api_ok w"
  "calls (PyErr_SetString t message w) = calls w"
  "native_calls (PyErr_SetString t message w) = native_calls w"
  "ExceptionDispatcher (PyErr_SetString t message w) = ExceptionDispatcher w"
  "PmemkvException (PyErr_SetString t message w) = PmemkvException w"
  "created (PyErr_SetString t message w) = created w"
  by (simp_all add: PyErr_SetString_def PyErr_Restore_def split: option.splits)

subsection \<open>The failure path of a method\<close>

lemma raise_status_result:
  "fst (raise_status eng result w) = None"
  "native_calls (snd (raise_status eng result w)) = native_calls w"
  "exc_info (snd (raise_status eng result w)) = exc_info w"
  by (simp_all add: raise_status_def dispatcher_at_def split: option.splits)

text \<open>
  With an entry that holds an exception class and a message that decodes, the failure
  path leaves exactly that class and that message in the error indicator.
\<close>

lemma raise_status_class:
  assumes "map_of (ExceptionDispatcher w) result = Some e" and "exception e = Some cls"
    and "PyUnicode_FromString (errormsg eng) = Some v"
  shows "raise_status eng result w =
           (None, w\<lparr>curexc_type := Some cls, curexc_value := Some v\<rparr>)"
  using assms by (simp add: raise_status_def dispatcher_at_def PyErr_SetString_class)

text \<open>
  With an entry whose class is null, or with no entry (the lookup then inserts the null
  descriptor), the class handed to \<open>PyErr_SetString\<close> is \<open>NULL\<close>.
\<close>

lemma raise_status_null_entry:
  assumes "map_of (ExceptionDispatcher w) result = Some e" and "exception e = None"
    and "PyUnicode_FromString (errormsg eng) = Some v"
  shows "exc_info w = None \<Longrightarrow>
           raise_status eng result w = (None, w\<lparr>curexc_type := None, curexc_value := Some v\<rparr>)"
    and "exc_info w \<noteq> None \<Longrightarrow> raise_status eng result w = (None, w\<lparr>segfault := True\<rparr>)"
  using assms by (simp_all add: raise_status_def dispatcher_at_def PyErr_SetString_null)



lemma Py_BuildValue_s_frame [simp]:
  "exc_info (snd (Py_BuildValue_s b w)) = exc_info w"
  "segfault (snd (Py_BuildValue_s b w)) = segfault w"
  "native_calls (snd (Py_BuildValue_s b w)) = native_calls w"
  "ExceptionDispatcher (snd (Py_BuildValue_s b w)) = ExceptionDispatcher w"
  by (simp_all add: Py_BuildValue_s_def PyErr_Restore_def)

subsection \<open>The interpreter after the import\<close>




subsection \<open>Closing the engine\<close>

text \<open>
  C8. \<open>pmemkv_NI_Stop\<close> closes the native handle only when it is not \<open>NULL\<close>, leaves
  \<open>NULL\<close> in the object and answers \<open>None\<close>; a second call finds \<open>NULL\<close>, calls nothing,
  changes nothing and answers \<open>None\<close> again. Over both calls \<open>pmemkv_close\<close> runs once
  for a handle that was open and never for one that was not, and the error indicator is
  never touched. The teardown \<open>Pmemkv_dealloc\<close> of a stopped object closes nothing more.
\<close>

theorem stop_idempotent:
  "pmemkv_NI_Stop self w =
     (Some Py_None, self\<lparr>db := NULL\<rparr>,
      if db self \<noteq> NULL then native ''pmemkv_close'' (db self) w else w)
   \<and> pmemkv_NI_Stop (fst (snd (pmemkv_NI_Stop self w))) (snd (snd (pmemkv_NI_Stop self w))) =
     (Some Py_None, fst (snd (pmemkv_NI_Stop self w)), snd (snd (pmemkv_NI_Stop self w)))
   \<and> db (fst (snd (pmemkv_NI_Stop self w))) = NULL
   \<and> native_calls (snd (snd (pmemkv_NI_Stop (fst (snd (pmemkv_NI_Stop self w)))
         (snd (snd (pmemkv_NI_Stop self w)))))) =
     native_calls w @ (if db self \<noteq> NULL then [(''pmemkv_close'', db self)] else [])
   \<and> curexc_type (snd (snd (pmemkv_NI_Stop (fst (snd (pmemkv_NI_Stop self w)))
         (snd (snd (pmemkv_NI_Stop self w)))))) = curexc_type w
   \<and> Pmemkv_dealloc (fst (snd (pmemkv_NI_Stop self w))) (snd (snd (pmemkv_NI_Stop self w))) =
     snd (snd (pmemkv_NI_Stop self w))"
  by (simp add: pmemkv_NI_Stop_def pmemkv_close_def Pmemkv_dealloc_def Let_def)

theorem stop_idempotent_witness:
  "pmemkv_NI_Stop \<lparr>db = Ptr 7\<rparr> initial_interp =
     (Some Py_None, \<lparr>db = NULL\<rparr>, initial_interp\<lparr>native_calls := [(''pmemkv_close'', Ptr 7)]\<rparr>)
   \<and> pmemkv_NI_Stop \<lparr>db = NULL\<rparr> (initial_interp\<lparr>native_calls := [(''pmemkv_close'', Ptr 7)]\<rparr>) =
     (Some Py_None, \<lparr>db = NULL\<rparr>, initial_interp\<lparr>native_calls := [(''pmemkv_close'', Ptr 7)]\<rparr>)"
  using stop_idempotent [of "\<lparr>db = Ptr 7\<rparr>" initial_interp]
  by (simp add: pmemkv_NI_Stop_def pmemkv_close_def native_def initial_interp_def)

subsection \<open>Exists and remove\<close>




subsection \<open>The dispatcher\<close>

lemma dispatcher_known:
  "map_of (ExceptionDispatcher w) code = Some e \<Longrightarrow> dispatcher_at code w = (e, w)"
  by (simp add: dispatcher_at_def)




subsection \<open>The count methods\<close>

lemma Py_BuildValue_i_small:
  assumes small: "unat cnt < 2 ^ 31"
  shows "Py_BuildValue_i cnt = PyLong (int (unat cnt))"
proof -
  have p: "(2::int) ^ 31 = 2147483648"
    by simp
  have nonneg: "0 \<le> uint cnt"
    by simp
  have lo: "- (2 ^ 31) \<le> uint cnt"
    unfolding p using nonneg by linarith
  have "int (unat cnt) < int (2 ^ 31)"
    using small by (simp only: of_nat_less_iff)
  then have hi: "uint cnt < 2 ^ 31"
    by simp
  have "sint (ucast cnt :: 32 word) = signed_take_bit 31 (uint cnt)"
    by (simp add: signed_ucast_eq)
  also have "\<dots> = uint cnt"
    using lo hi by (rule signed_take_bit_int_eq_self)
  finally show ?thesis
    by (simp add: Py_BuildValue_i_def)
qed

text \<open>
  C9, at the failing input: the engine answers OK and the count \<open>2^31\<close>. Each of the four
  count methods answers the Python integer \<open>-2147483648\<close>: the \<open>size_t\<close> count goes
  through the format unit \<open>i\<close>, which reads a 32-bit signed \<open>int\<close>.
\<close>

theorem count_truncated_to_int:
  "fst (pmemkv_NI_CountAll (example_engine\<lparr>e_count_all := \<lambda>h. (PMEMKV_STATUS_OK, 2147483648)\<rparr>)
          \<lparr>db = Ptr 7\<rparr> initial_interp) = Some (PyLong (- 2147483648))
   \<and> fst (pmemkv_NI_CountAbove
          (example_engine\<lparr>e_count_above := \<lambda>h k. (PMEMKV_STATUS_OK, 2147483648)\<rparr>)
          \<lparr>db = Ptr 7\<rparr> [PyBytes ''a''] initial_interp) = Some (PyLong (- 2147483648))
   \<and> fst (pmemkv_NI_CountBelow
          (example_engine\<lparr>e_count_below := \<lambda>h k. (PMEMKV_STATUS_OK, 2147483648)\<rparr>)
          \<lparr>db = Ptr 7\<rparr> [PyBytes ''a''] initial_interp) = Some (PyLong (- 2147483648))
   \<and> fst (pmemkv_NI_CountBetween
          (example_engine\<lparr>e_count_between := \<lambda>h k1 k2. (PMEMKV_STATUS_OK, 2147483648)\<rparr>)
          \<lparr>db = Ptr 7\<rparr> [PyBytes ''a'', PyBytes ''z''] initial_interp) =
       Some (PyLong (- 2147483648))"
  by (simp add: pmemkv_NI_CountAll_def pmemkv_NI_CountAbove_def pmemkv_NI_CountBelow_def
      pmemkv_NI_CountBetween_def pmemkv_count_all_def pmemkv_count_above_def
      pmemkv_count_below_def pmemkv_count_between_def count_result_def Py_BuildValue_i_def
      parse_s_def parse_ss_def buffer_of_def example_engine_def)

text \<open>
  What does hold of the count methods: a status other than OK gives \<open>NULL\<close> with the
  class of the dispatcher's entry for it, and with the status OK a count below \<open>2^31\<close> is
  answered as it is.
\<close>

lemma count_all_below_int_max:
  "e_count_all eng (db self) = (PMEMKV_STATUS_OK, cnt) \<Longrightarrow> unat cnt < 2 ^ 31 \<Longrightarrow>
   pmemkv_NI_CountAll eng self w =
     (Some (PyLong (int (unat cnt))), native ''pmemkv_count_all'' (db self) w)"
  by (simp add: pmemkv_NI_CountAll_def pmemkv_count_all_def count_result_def
      Py_BuildValue_i_small)

lemma count_all_failure:
  "e_count_all eng (db self) = (st, cnt) \<Longrightarrow> st \<noteq> PMEMKV_STATUS_OK \<Longrightarrow>
   map_of (ExceptionDispatcher w) st = Some e \<Longrightarrow> exception e = Some cls \<Longrightarrow>
   PyUnicode_FromString (errormsg eng) = Some v \<Longrightarrow>
   pmemkv_NI_CountAll eng self w =
     (None, (native ''pmemkv_count_all'' (db self) w)
              \<lparr>curexc_type := Some cls, curexc_value := Some v\<rparr>)"
  by (simp add: pmemkv_NI_CountAll_def pmemkv_count_all_def count_result_def
      raise_status_class)


subsection \<open>get\_string\<close>





subsection \<open>What the reference counting leaves alone\<close>

lemma Py_INCREF_fields [simp]:
  "curexc_type (Py_INCREF i w) = curexc_type w"
  "curexc_value (Py_INCREF i w) = curexc_value w"
  "next_id (Py_INCREF i w) = next_id w"
  "api_ok (Py_INCREF i w) = api_ok w"
  "calls (Py_INCREF i w) = calls w"
  "native_calls (Py_INCREF i w) = native_calls w"
  "ExceptionDispatcher (Py_INCREF i w) = ExceptionDispatcher w"
  "PmemkvException (Py_INCREF i w) = PmemkvException w"
  "created (Py_INCREF i w) = created w"
  by (simp_all add: Py_INCREF_def)

lemma Py_DECREF_fields [simp]:
  "curexc_type (Py_DECREF i w) = curexc_type w"
  "curexc_value (Py_DECREF i w) = curexc_value w"
  "next_id (Py_DECREF i w) = next_id w"
  "api_ok (Py_DECREF i w) = api_ok w"
  "calls (Py_DECREF i w) = calls w"
  "native_calls (Py_DECREF i w) = native_calls w"
  "ExceptionDispatcher (Py_DECREF i w) = ExceptionDispatcher w"
  "PmemkvException (Py_DECREF i w) = PmemkvException w"
  "created (Py_DECREF i w) = created w"
  by (simp_all add: Py_DECREF_def split: option.splits)

lemma Py_XDECREF_fields [simp]:
  "curexc_type (Py_XDECREF p w) = curexc_type w"
  "curexc_value (Py_XDECREF p w) = curexc_value w"
  "next_id (Py_XDECREF p w) = next_id w"
  "api_ok (Py_XDECREF p w) = api_ok w"
  "calls (Py_XDECREF p w) = calls w"
  "native_calls (Py_XDECREF p w) = native_calls w"
  "ExceptionDispatcher (Py_XDECREF p w) = ExceptionDispatcher w"
  "PmemkvException (Py_XDECREF p w) = PmemkvException w"
  "created (Py_XDECREF p w) = created w"
  by (simp_all add: Py_XDECREF_def split: option.splits)

lemma set_view_fields [simp]:
  "curexc_type (set_view i p n w) = curexc_type w"
  "curexc_value (set_view i p n w) = curexc_value w"
  "next_id (set_view i p n w) = next_id w"
  "api_ok (set_view i p n w) = api_ok w"
  "calls (set_view i p n w) = calls w"
  "native_calls (set_view i p n w) = native_calls w"
  "ExceptionDispatcher (set_view i p n w) = ExceptionDispatcher w"
  "PmemkvException (set_view i p n w) = PmemkvException w"
  "created (set_view i p n w) = created w"
  by (simp_all add: set_view_def)

lemma retain_fields [simp]:
  "curexc_type (retain args pos w) = curexc_type w"
  "curexc_value (retain args pos w) = curexc_value w"
  "next_id (retain args pos w) = next_id w"
  "api_ok (retain args pos w) = api_ok w"
  "calls (retain args pos w) = calls w"
  "native_calls (retain args pos w) = native_calls w"
  "ExceptionDispatcher (retain args pos w) = ExceptionDispatcher w"
  "PmemkvException (retain args pos w) = PmemkvException w"
  "created (retain args pos w) = created w"
  by (simp_all add: retain_def split: option.splits)

lemma fold_retain_fields [simp]:
  "curexc_type (fold (retain args) ps w) = curexc_type w"
  "curexc_value (fold (retain args) ps w) = curexc_value w"
  "next_id (fold (retain args) ps w) = next_id w"
  "api_ok (fold (retain args) ps w) = api_ok w"
  "calls (fold (retain args) ps w) = calls w"
  "native_calls (fold (retain args) ps w) = native_calls w"
  "ExceptionDispatcher (fold (retain args) ps w) = ExceptionDispatcher w"
  "PmemkvException (fold (retain args) ps w) = PmemkvException w"
  "created (fold (retain args) ps w) = created w"
  by (induction ps arbitrary: w) simp_all

lemma tuple_dealloc_fields [simp]:
  "curexc_type (tuple_dealloc t w) = curexc_type w"
  "curexc_value (tuple_dealloc t w) = curexc_value w"
  "next_id (tuple_dealloc t w) = next_id w"
  "api_ok (tuple_dealloc t w) = api_ok w"
  "calls (tuple_dealloc t w) = calls w"
  "native_calls (tuple_dealloc t w) = native_calls w"
  "ExceptionDispatcher (tuple_dealloc t w) = ExceptionDispatcher w"
  "PmemkvException (tuple_dealloc t w) = PmemkvException w"
  "created (tuple_dealloc t w) = created w"
  by (induction t arbitrary: w) simp_all

subsection \<open>One invocation of a bridge\<close>

text \<open>
  With the runtime's allocations succeeding, the value-only bridge shows the callable one
  view of the range it was given, and leaves in the error indicator what the callable
  raised.
\<close>

lemma value_callback_invokes:
  assumes "api_ok w = []"
  shows "calls (value_callback p n (PyFunction f) w) = calls w @ [[(p, n)]]"
    and "api_ok (value_callback p n (PyFunction f) w) = []"
    and "native_calls (value_callback p n (PyFunction f) w) = native_calls w"
    and "ExceptionDispatcher (value_callback p n (PyFunction f) w) = ExceptionDispatcher w"
    and "curexc_type (value_callback p n (PyFunction f) w) =
          (case outcome (f (length (calls w)) [(p, n)]) of
             Return \<Rightarrow> curexc_type w | Raise x m \<Rightarrow> Some x)"
    and "curexc_value (value_callback p n (PyFunction f) w) =
          (case outcome (f (length (calls w)) [(p, n)]) of
             Return \<Rightarrow> curexc_value w | Raise x m \<Rightarrow> Some m)"
  using assms
  by (simp_all add: value_callback_def PyObject_New_def next_ok_def PyTuple_New_def
      PyTuple_SetItem_def PyObject_CallObject_def Let_def read_view_def set_view_def
      PmemkvValueBufferObject_getbuffer_def PyErr_SetString_msgs PyErr_Restore_def
      split: host_outcome.splits)

lemma key_value_callback_invokes:
  assumes "api_ok w = []"
  shows "calls (snd (key_value_callback k kb v vb (PyFunction f) w)) =
          calls w @ [[(k, kb), (v, vb)]]"
    and "api_ok (snd (key_value_callback k kb v vb (PyFunction f) w)) = []"
    and "native_calls (snd (key_value_callback k kb v vb (PyFunction f) w)) = native_calls w"
    and "ExceptionDispatcher (snd (key_value_callback k kb v vb (PyFunction f) w)) =
          ExceptionDispatcher w"
    and "curexc_type (snd (key_value_callback k kb v vb (PyFunction f) w)) =
          (case outcome (f (length (calls w)) [(k, kb), (v, vb)]) of
             Return \<Rightarrow> curexc_type w | Raise x m \<Rightarrow> Some x)"
    and "curexc_value (snd (key_value_callback k kb v vb (PyFunction f) w)) =
          (case outcome (f (length (calls w)) [(k, kb), (v, vb)]) of
             Return \<Rightarrow> curexc_value w | Raise x m \<Rightarrow> Some m)"
  using assms
  by (simp_all add: key_value_callback_def PyObject_New_def next_ok_def PyTuple_New_def
      PyTuple_SetItem_def PyObject_CallObject_def Let_def read_view_def set_view_def
      PmemkvValueBufferObject_getbuffer_def PyErr_SetString_msgs PyErr_Restore_def PyErr_Occurred_def
      numeral_2_eq_2
      split: host_outcome.splits)

lemma key_callback_result:
  "fst (key_callback k kb v vb ctx w) =
     (if curexc_type (snd (key_callback k kb v vb ctx w)) \<noteq> None then - 1 else 0)"
  by (simp add: key_callback_def Let_def PyErr_Occurred_def)

lemma key_callback_snd:
  "snd (key_callback k kb v vb ctx w) = value_callback k kb ctx w"
  by (simp add: key_callback_def Let_def)

text \<open>
  Whatever the runtime's allocations do: either the callable is not invoked at all, or it
  is invoked once on the views of the ranges and the error indicator holds what it raised.
\<close>

lemma next_ok_eq:
  "next_ok w = (api_ok w = [] \<or> hd (api_ok w), w\<lparr>api_ok := tl (api_ok w)\<rparr>)"
  by (cases "api_ok w") (simp_all add: next_ok_def)

lemma value_callback_cases:
  "calls (value_callback p n (PyFunction f) w) = calls w
   \<or> (calls (value_callback p n (PyFunction f) w) = calls w @ [[(p, n)]]
      \<and> curexc_type (value_callback p n (PyFunction f) w) =
          (case outcome (f (length (calls w)) [(p, n)]) of
             Return \<Rightarrow> curexc_type w | Raise x m \<Rightarrow> Some x))"
  by (cases "api_ok w = [] \<or> hd (api_ok w)";
      cases "tl (api_ok w) = [] \<or> hd (tl (api_ok w))")
    (simp_all add: value_callback_def PyObject_New_def next_ok_eq PyTuple_New_def
      PyTuple_SetItem_def PyObject_CallObject_def Let_def read_view_def set_view_def
      PmemkvValueBufferObject_getbuffer_def PyErr_SetString_msgs PyErr_Restore_def PyErr_NoMemory_def
      split: host_outcome.splits)

lemma key_value_callback_result:
  "fst (key_value_callback k kb v vb ctx w) =
     (if curexc_type (snd (key_value_callback k kb v vb ctx w)) \<noteq> None then - 1 else 0)"
  by (cases "api_ok w = [] \<or> hd (api_ok w)";
      cases "tl (api_ok w) = [] \<or> hd (tl (api_ok w))";
      cases "tl (tl (api_ok w)) = [] \<or> hd (tl (tl (api_ok w)))")
    (simp_all add: key_value_callback_def PyObject_New_def next_ok_eq PyTuple_New_def
      PyTuple_SetItem_def Let_def PyErr_SetString_msgs PyErr_Restore_def PyErr_NoMemory_def PyErr_Occurred_def
      Py_XDECREF_def numeral_2_eq_2)

lemma key_value_callback_cases:
  "calls (snd (key_value_callback k kb v vb (PyFunction f) w)) = calls w
   \<or> (calls (snd (key_value_callback k kb v vb (PyFunction f) w)) =
        calls w @ [[(k, kb), (v, vb)]]
      \<and> curexc_type (snd (key_value_callback k kb v vb (PyFunction f) w)) =
          (case outcome (f (length (calls w)) [(k, kb), (v, vb)]) of
             Return \<Rightarrow> curexc_type w | Raise x m \<Rightarrow> Some x))"
  by (cases "api_ok w = [] \<or> hd (api_ok w)";
      cases "tl (api_ok w) = [] \<or> hd (tl (api_ok w))";
      cases "tl (tl (api_ok w)) = [] \<or> hd (tl (tl (api_ok w)))")
    (simp_all add: key_value_callback_def PyObject_New_def next_ok_eq PyTuple_New_def
      PyTuple_SetItem_def PyObject_CallObject_def Let_def read_view_def set_view_def
      PmemkvValueBufferObject_getbuffer_def PyErr_SetString_msgs PyErr_Restore_def PyErr_NoMemory_def
      PyErr_Occurred_def Py_XDECREF_def numeral_2_eq_2
      split: host_outcome.splits)

subsection \<open>The key+value bridge clears its views\<close>

lemma read_view_absent:
  "heap w i = None \<Longrightarrow> read_view w (Some i) = (NULL, 0)"
  by (simp add: read_view_def)

lemma read_view_Py_DECREF:
  "read_view w (Some i) = (NULL, 0) \<Longrightarrow> read_view (Py_DECREF j w) (Some i) = (NULL, 0)"
  by (auto simp add: read_view_def Py_DECREF_def PmemkvValueBufferObject_getbuffer_def
      split: option.splits if_splits)

lemma read_view_Py_XDECREF:
  "read_view w (Some i) = (NULL, 0) \<Longrightarrow> read_view (Py_XDECREF p w) (Some i) = (NULL, 0)"
  by (simp add: Py_XDECREF_def read_view_Py_DECREF split: option.splits)

lemma read_view_tuple_dealloc:
  "read_view w (Some i) = (NULL, 0) \<Longrightarrow> read_view (tuple_dealloc t w) (Some i) = (NULL, 0)"
  by (induction t arbitrary: w)
    (simp_all add: read_view_Py_XDECREF)

lemma read_view_set_view_cleared:
  "read_view (set_view i NULL 0 w) (Some i) = (NULL, 0)"
  by (simp add: read_view_def set_view_def PmemkvValueBufferObject_getbuffer_def
      split: option.splits)

lemma read_view_set_view_other:
  "read_view w (Some i) = (NULL, 0) \<Longrightarrow> read_view (set_view j NULL 0 w) (Some i) = (NULL, 0)"
  by (auto simp add: read_view_def set_view_def PmemkvValueBufferObject_getbuffer_def
      split: option.splits)

lemma heap_absent_fold_retain:
  "heap w i = None \<Longrightarrow> heap (fold (retain args) ps w) i = None"
  by (induction ps arbitrary: w)
    (simp_all add: retain_def Py_INCREF_def split: option.splits)

lemma heap_absent_PyObject_CallObject:
  "heap w i = None \<Longrightarrow> heap (snd (PyObject_CallObject ctx args w)) i = None"
  by (simp add: PyObject_CallObject_def Let_def PyErr_SetString_msgs PyErr_Restore_def heap_absent_fold_retain
      split: pyobj.splits host_outcome.splits)

lemma heap_absent_set_view [simp]:
  "heap (set_view j p n w) i = None \<longleftrightarrow> heap w i = None"
  by (simp add: set_view_def)

lemma snd_if_same:
  "snd (if c then (a, x) else (b, x)) = x"
  by simp

text \<open>
  For every invocation of the key+value bridge, from a state whose addresses from
  \<open>next_id\<close> on are free: whatever the context object is, whatever the callable does and
  keeps, and whether the allocations succeed or not, every object at such an address
  reads as the empty range once the bridge is back: it was freed, or its pointer and
  length were cleared by lines 299-302.
\<close>

lemma key_value_callback_clears:
  assumes fresh: "\<forall>i\<ge>next_id w. heap w i = None"
    and i: "next_id w \<le> i"
  shows "read_view (snd (key_value_callback k kb v vb ctx w)) (Some i) = (NULL, 0)"
proof -
  let ?n = "next_id w"
  have absent: "heap w i = None" and a0: "heap w ?n = None" and a1: "heap w (Suc ?n) = None"
    using fresh i by simp_all
  show ?thesis
  proof (cases "(api_ok w = [] \<or> hd (api_ok w))
      \<and> (tl (api_ok w) = [] \<or> hd (tl (api_ok w)))
      \<and> (tl (tl (api_ok w)) = [] \<or> hd (tl (tl (api_ok w))))")
    case True
    consider (first) "i = ?n" | (second) "i = Suc ?n" | (later) "Suc ?n < i"
      using i by linarith
    then show ?thesis
    proof cases
      case first
      with True show ?thesis
        by (simp add: key_value_callback_def PyObject_New_def next_ok_eq PyTuple_New_def
            PyTuple_SetItem_def Let_def PyErr_Occurred_def numeral_2_eq_2 snd_if_same
            read_view_Py_XDECREF read_view_set_view_cleared read_view_set_view_other)
    next
      case second
      with True show ?thesis
        by (simp add: key_value_callback_def PyObject_New_def next_ok_eq PyTuple_New_def
            PyTuple_SetItem_def Let_def PyErr_Occurred_def numeral_2_eq_2 snd_if_same
            read_view_Py_XDECREF read_view_set_view_cleared read_view_set_view_other)
    next
      case later
      with True absent show ?thesis
        by (simp add: key_value_callback_def PyObject_New_def next_ok_eq PyTuple_New_def
            PyTuple_SetItem_def Let_def PyErr_Occurred_def numeral_2_eq_2 snd_if_same
            read_view_Py_XDECREF read_view_set_view_other read_view_absent
            heap_absent_PyObject_CallObject)
    qed
  next
    case False
    with a0 a1 absent i show ?thesis
      by (cases "api_ok w = [] \<or> hd (api_ok w)";
          cases "tl (api_ok w) = [] \<or> hd (tl (api_ok w))")
        (auto simp add: key_value_callback_def PyObject_New_def next_ok_eq PyTuple_New_def
          Let_def PyErr_SetString_msgs PyErr_Restore_def PyErr_NoMemory_def Py_XDECREF_def Py_DECREF_def
          set_view_def read_view_def PmemkvValueBufferObject_getbuffer_def)
  qed
qed

subsection \<open>The value-only bridge leaves its view as it was\<close>

lemma fold_retain_single:
  "heap w i = Some ob \<Longrightarrow>
   heap (fold (retain [Some i]) ps w) i =
     Some (ob\<lparr>ob_refcnt := ob_refcnt ob + count_list ps 0\<rparr>)"
proof (induction ps arbitrary: w ob)
  case Nil
  then show ?case by simp
next
  case (Cons pos ps)
  show ?case
  proof (cases "pos = 0")
    case True
    with Cons.prems have "heap (retain [Some i] pos w) i =
        Some (ob\<lparr>ob_refcnt := Suc (ob_refcnt ob)\<rparr>)"
      by (simp add: retain_def Py_INCREF_def)
    from Cons.IH [OF this] True show ?thesis
      by simp
  next
    case False
    with Cons.prems have "heap (retain [Some i] pos w) i = Some ob"
      by (simp add: retain_def)
    from Cons.IH [OF this] False show ?thesis
      by simp
  qed
qed

text \<open>
  For every range and every host callable that keeps its argument, with the runtime's
  allocations succeeding: once \<open>value_callback\<close> is back, the view object is alive
  and reads as the range the engine handed over, pointer and length unchanged.
\<close>

lemma value_callback_keeps_view:
  assumes ok: "api_ok w = []"
    and kept: "0 \<in> set (retained (f (length (calls w)) [(p, n)]))"
  shows "read_view (value_callback p n (PyFunction f) w) (Some (next_id w)) = (p, n)"
proof -
  let ?eff = "f (length (calls w)) [(p, n)]"
  let ?w4 = "(set_view (next_id w) p n
               (w\<lparr>heap := (heap w)(next_id w \<mapsto>
                      \<lparr>ob_refcnt = 1, buf_value = NULL, buf_length = 0\<rparr>),
                  next_id := Suc (next_id w)\<rparr>))\<lparr>calls := calls w @ [[(p, n)]]\<rparr>"
  have c: "0 < count_list (retained ?eff) 0"
  proof (rule ccontr)
    assume "\<not> 0 < count_list (retained ?eff) 0"
    then have "count_list (retained ?eff) 0 = 0"
      by simp
    with kept show False
      by (simp add: count_list_0_iff)
  qed
  have "heap ?w4 (next_id w) = Some \<lparr>ob_refcnt = 1, buf_value = p, buf_length = n\<rparr>"
    by (simp add: set_view_def)
  from fold_retain_single [OF this, of "retained ?eff"]
  have h: "heap (fold (retain [Some (next_id w)]) (retained ?eff) ?w4) (next_id w) =
      Some \<lparr>ob_refcnt = 1 + count_list (retained ?eff) 0, buf_value = p, buf_length = n\<rparr>"
    by simp
  have "value_callback p n (PyFunction f) w =
      Py_DECREF (next_id w)
        (case outcome ?eff of
           Return \<Rightarrow> fold (retain [Some (next_id w)]) (retained ?eff) ?w4
         | Raise e msg \<Rightarrow>
             PyErr_Restore (Some e) (Some msg)
               (fold (retain [Some (next_id w)]) (retained ?eff) ?w4))"
    using ok
    by (simp add: value_callback_def PyObject_New_def next_ok_def PyTuple_New_def
        PyTuple_SetItem_def PyObject_CallObject_def Let_def read_view_def set_view_def
        PmemkvValueBufferObject_getbuffer_def Py_XDECREF_def
        split: host_outcome.splits)
  with h c show ?thesis
    by (simp add: read_view_def Py_DECREF_def PyErr_SetString_msgs PyErr_Restore_def
        PmemkvValueBufferObject_getbuffer_def split: host_outcome.splits)
qed

subsection \<open>A view kept beyond the callback\<close>

text \<open>
  C1, at the failing input: the value-only bridge is called with the range (address 4096,
  length 2) and a host callable that keeps its argument. When \<open>value_callback\<close> is back,
  the view object is still alive and still holds the engine's pointer and the length 2:
  the bridge has no assignment that clears them, as lines 299-302 of
  \<open>key_value_callback\<close> do. The same through \<open>key_callback\<close> (the bridge of the
  \<open>get_keys\<close> methods) and through the method \<open>pmemkv_NI_Get\<close>. The lemma
  \<open>value_callback_keeps_view\<close> above is the general statement, and
  \<open>key_value_callback_clears\<close> is what the claim says, for the key+value bridge.
\<close>

theorem value_callback_keeps_pointer:
  "heap (value_callback (Ptr 4096) 2 (PyFunction keep_all) initial_interp) 0 =
     Some \<lparr>ob_refcnt = 1, buf_value = Ptr 4096, buf_length = 2\<rparr>
   \<and> read_view (value_callback (Ptr 4096) 2 (PyFunction keep_all) initial_interp) (Some 0) =
       (Ptr 4096, 2)
   \<and> read_view (snd (key_callback (Ptr 4096) 2 (Ptr 5000) 3 (PyFunction keep_all)
                      initial_interp)) (Some 0) = (Ptr 4096, 2)
   \<and> fst (pmemkv_NI_Get example_engine \<lparr>db = Ptr 7\<rparr> [PyBytes ''a'', PyFunction keep_all]
            initial_interp) = Some Py_None
   \<and> read_view (snd (pmemkv_NI_Get example_engine \<lparr>db = Ptr 7\<rparr>
                      [PyBytes ''a'', PyFunction keep_all] initial_interp)) (Some 0) =
       (Ptr 4096, 2)"
  by (simp add: value_callback_def key_callback_def pmemkv_NI_Get_def pmemkv_get_def
      parse_sO_def buffer_of_def example_engine_def after_native_def PyErr_Occurred_def
      PyObject_New_def next_ok_def set_view_def PyTuple_New_def PyTuple_SetItem_def
      PyObject_CallObject_def read_view_def PmemkvValueBufferObject_getbuffer_def
      keep_all_def retain_def Py_INCREF_def Py_XDECREF_def Py_DECREF_def native_def
      initial_interp_def status_defs Let_def)

text \<open>
  The key+value bridge on the same kind of callable: both views are kept, and both read
  as the empty range afterwards.
\<close>

lemma key_value_callback_clears_example:
  "read_view (snd (key_value_callback (Ptr 4096) 2 (Ptr 5000) 3 (PyFunction keep_all)
                     initial_interp)) (Some 0) = (NULL, 0)
   \<and> read_view (snd (key_value_callback (Ptr 4096) 2 (Ptr 5000) 3 (PyFunction keep_all)
                     initial_interp)) (Some 1) = (NULL, 0)
   \<and> heap (snd (key_value_callback (Ptr 4096) 2 (Ptr 5000) 3 (PyFunction keep_all)
                     initial_interp)) 0 = Some \<lparr>ob_refcnt = 1, buf_value = NULL, buf_length = 0\<rparr>
   \<and> calls (snd (key_value_callback (Ptr 4096) 2 (Ptr 5000) 3 (PyFunction keep_all)
                     initial_interp)) = [[(Ptr 4096, 2), (Ptr 5000, 3)]]"
  by (simp add: key_value_callback_def PyErr_Occurred_def
      PyObject_New_def next_ok_def set_view_def PyTuple_New_def PyTuple_SetItem_def
      PyObject_CallObject_def read_view_def PmemkvValueBufferObject_getbuffer_def
      keep_all_def retain_def Py_INCREF_def Py_XDECREF_def Py_DECREF_def
      initial_interp_def Let_def numeral_2_eq_2)

subsection \<open>Iteration with a raising callable\<close>

text \<open>
  The engine's iteration over the entries \<open>es\<close> with a bridge \<open>cb\<close> that shows the
  callable the views \<open>views e\<close> of an entry: when the callable returns on the first \<open>k\<close>
  entries and raises on the next, the iteration ends there with the status "stopped by
  callback", after exactly \<open>k + 1\<close> invocations, with the callable's exception in the
  error indicator.
\<close>

lemma iterate_stops_at_raise:
  assumes step: "\<And>e w. api_ok w = [] \<Longrightarrow> curexc_type w = None \<Longrightarrow>
        api_ok (snd (cb (fst (fst e)) (snd (fst e)) (fst (snd e)) (snd (snd e))
                       (PyFunction f) w)) = []
        \<and> calls (snd (cb (fst (fst e)) (snd (fst e)) (fst (snd e)) (snd (snd e))
                       (PyFunction f) w)) = calls w @ [views e]
        \<and> native_calls (snd (cb (fst (fst e)) (snd (fst e)) (fst (snd e)) (snd (snd e))
                       (PyFunction f) w)) = native_calls w
        \<and> ExceptionDispatcher (snd (cb (fst (fst e)) (snd (fst e)) (fst (snd e)) (snd (snd e))
                       (PyFunction f) w)) = ExceptionDispatcher w
        \<and> fst (cb (fst (fst e)) (snd (fst e)) (fst (snd e)) (snd (snd e)) (PyFunction f) w) =
            (case outcome (f (length (calls w)) (views e)) of
               Return \<Rightarrow> 0 | Raise x m \<Rightarrow> - 1)
        \<and> curexc_type (snd (cb (fst (fst e)) (snd (fst e)) (fst (snd e)) (snd (snd e))
                       (PyFunction f) w)) =
            (case outcome (f (length (calls w)) (views e)) of
               Return \<Rightarrow> None | Raise x m \<Rightarrow> Some x)
        \<and> curexc_value (snd (cb (fst (fst e)) (snd (fst e)) (fst (snd e)) (snd (snd e))
                       (PyFunction f) w)) =
            (case outcome (f (length (calls w)) (views e)) of
               Return \<Rightarrow> curexc_value w | Raise x m \<Rightarrow> Some m)"
    and "api_ok w = []" and "curexc_type w = None" and "k < length es"
    and "\<forall>j<k. outcome (f (length (calls w) + j) (views (es ! j))) = Return"
    and "outcome (f (length (calls w) + k) (views (es ! k))) = Raise x m"
  shows "fst (iterate cb (PyFunction f) es final w) = PMEMKV_STATUS_STOPPED_BY_CB
     \<and> calls (snd (iterate cb (PyFunction f) es final w)) =
         calls w @ map views (take (Suc k) es)
     \<and> curexc_type (snd (iterate cb (PyFunction f) es final w)) = Some x
     \<and> curexc_value (snd (iterate cb (PyFunction f) es final w)) = Some m
     \<and> native_calls (snd (iterate cb (PyFunction f) es final w)) = native_calls w
     \<and> ExceptionDispatcher (snd (iterate cb (PyFunction f) es final w)) =
         ExceptionDispatcher w"
  using assms(2-)
proof (induction es arbitrary: w k)
  case Nil
  then show ?case by simp
next
  case (Cons e es)
  let ?r = "cb (fst (fst e)) (snd (fst e)) (fst (snd e)) (snd (snd e)) (PyFunction f) w"
  note s = step [OF Cons.prems(1) Cons.prems(2), of e]
  show ?case
  proof (cases k)
    case 0
    with Cons.prems have "outcome (f (length (calls w)) (views e)) = Raise x m"
      by simp
    with s 0 show ?thesis
      by (simp add: case_prod_beta)
  next
    case (Suc k')
    with Cons.prems have ret: "outcome (f (length (calls w)) (views e)) = Return"
      by auto
    have k': "k' < length es"
      using Cons.prems Suc by simp
    have earlier: "\<forall>j<k'. outcome (f (length (calls (snd ?r)) + j) (views (es ! j))) = Return"
    proof (intro allI impI)
      fix j
      assume "j < k'"
      then have "Suc j < k"
        using Suc by simp
      with Cons.prems have "outcome (f (length (calls w) + Suc j) (views ((e # es) ! Suc j))) = Return"
        by blast
      with s show "outcome (f (length (calls (snd ?r)) + j) (views (es ! j))) = Return"
        by simp
    qed
    have at: "outcome (f (length (calls (snd ?r)) + k') (views (es ! k'))) = Raise x m"
      using Cons.prems Suc s by simp
    have ok: "api_ok (snd ?r) = []" and none: "curexc_type (snd ?r) = None"
      using s ret by simp_all
    note IH = Cons.IH [OF ok none k' earlier at]
    from s ret have zero: "fst ?r = 0"
      by simp
    from zero IH s Suc show ?thesis
      by (simp add: case_prod_beta)
  qed
qed

lemma key_callback_step:
  assumes "api_ok w = []" and "curexc_type w = None"
  shows "api_ok (snd (key_callback (fst (fst e)) (snd (fst e)) (fst (snd e)) (snd (snd e))
                       (PyFunction f) w)) = []
        \<and> calls (snd (key_callback (fst (fst e)) (snd (fst e)) (fst (snd e)) (snd (snd e))
                       (PyFunction f) w)) = calls w @ [[fst e]]
        \<and> native_calls (snd (key_callback (fst (fst e)) (snd (fst e)) (fst (snd e)) (snd (snd e))
                       (PyFunction f) w)) = native_calls w
        \<and> ExceptionDispatcher (snd (key_callback (fst (fst e)) (snd (fst e)) (fst (snd e))
                       (snd (snd e)) (PyFunction f) w)) = ExceptionDispatcher w
        \<and> fst (key_callback (fst (fst e)) (snd (fst e)) (fst (snd e)) (snd (snd e))
                       (PyFunction f) w) =
            (case outcome (f (length (calls w)) [fst e]) of
               Return \<Rightarrow> 0 | Raise x m \<Rightarrow> - 1)
        \<and> curexc_type (snd (key_callback (fst (fst e)) (snd (fst e)) (fst (snd e)) (snd (snd e))
                       (PyFunction f) w)) =
            (case outcome (f (length (calls w)) [fst e]) of
               Return \<Rightarrow> None | Raise x m \<Rightarrow> Some x)
        \<and> curexc_value (snd (key_callback (fst (fst e)) (snd (fst e)) (fst (snd e)) (snd (snd e))
                       (PyFunction f) w)) =
            (case outcome (f (length (calls w)) [fst e]) of
               Return \<Rightarrow> curexc_value w | Raise x m \<Rightarrow> Some m)"
  using assms
  by (simp add: key_callback_result key_callback_snd value_callback_invokes
      split: host_outcome.splits)

lemma key_value_callback_step:
  assumes "api_ok w = []" and "curexc_type w = None"
  shows "api_ok (snd (key_value_callback (fst (fst e)) (snd (fst e)) (fst (snd e)) (snd (snd e))
                       (PyFunction f) w)) = []
        \<and> calls (snd (key_value_callback (fst (fst e)) (snd (fst e)) (fst (snd e)) (snd (snd e))
                       (PyFunction f) w)) = calls w @ [[fst e, snd e]]
        \<and> native_calls (snd (key_value_callback (fst (fst e)) (snd (fst e)) (fst (snd e))
                       (snd (snd e)) (PyFunction f) w)) = native_calls w
        \<and> ExceptionDispatcher (snd (key_value_callback (fst (fst e)) (snd (fst e)) (fst (snd e))
                       (snd (snd e)) (PyFunction f) w)) = ExceptionDispatcher w
        \<and> fst (key_value_callback (fst (fst e)) (snd (fst e)) (fst (snd e)) (snd (snd e))
                       (PyFunction f) w) =
            (case outcome (f (length (calls w)) [fst e, snd e]) of
               Return \<Rightarrow> 0 | Raise x m \<Rightarrow> - 1)
        \<and> curexc_type (snd (key_value_callback (fst (fst e)) (snd (fst e)) (fst (snd e))
                       (snd (snd e)) (PyFunction f) w)) =
            (case outcome (f (length (calls w)) [fst e, snd e]) of
               Return \<Rightarrow> None | Raise x m \<Rightarrow> Some x)
        \<and> curexc_value (snd (key_value_callback (fst (fst e)) (snd (fst e)) (fst (snd e))
                       (snd (snd e)) (PyFunction f) w)) =
            (case outcome (f (length (calls w)) [fst e, snd e]) of
               Return \<Rightarrow> curexc_value w | Raise x m \<Rightarrow> Some m)"
  using assms
  by (simp add: key_value_callback_result key_value_callback_invokes
      split: host_outcome.splits)

lemmas iterate_keys_stops =
  iterate_stops_at_raise [of key_callback _ "\<lambda>e. [fst e]", OF key_callback_step]

lemmas iterate_key_values_stops =
  iterate_stops_at_raise [of key_value_callback _ "\<lambda>e. [fst e, snd e]",
    OF key_value_callback_step]

lemma after_native_pending:
  "curexc_type w = Some x \<Longrightarrow> after_native eng r w = (None, w)"
  by (simp add: after_native_def PyErr_Occurred_def)

subsection \<open>A failure raised in the callable comes back to the caller\<close>

text \<open>
  C3. Every iteration method (\<open>get_all\<close>, \<open>get_above\<close>, \<open>get_below\<close>, \<open>get_between\<close> and
  their \<open>get_keys\<close> forms), entered with no error pending and with the runtime's
  allocations succeeding: when the host callable returns on the first \<open>k\<close> entries and
  raises the exception \<open>x\<close> with the message \<open>m\<close> on the next one, the method answers
  \<open>NULL\<close> with exactly \<open>x\<close> and \<open>m\<close> in the error indicator. The native call itself came
  back with the status "stopped by callback", for which the dispatcher holds another
  exception: the test \<open>PyErr_Occurred() != NULL\<close> comes before the status is looked at.
\<close>

theorem callback_failure_resurfaces:
  assumes ok: "api_ok w = []" and clear: "curexc_type w = None"
    and k: "k < length es"
    and f_ret: "\<forall>j<k. outcome (f (length (calls w) + j) [fst (es ! j), snd (es ! j)]) = Return"
    and f_raise: "outcome (f (length (calls w) + k) [fst (es ! k), snd (es ! k)]) = Raise x m"
    and g_ret: "\<forall>j<k. outcome (g (length (calls w) + j) [fst (es ! j)]) = Return"
    and g_raise: "outcome (g (length (calls w) + k) [fst (es ! k)]) = Raise x m"
    and a: "buffer_of a = Some key1" and b: "buffer_of b = Some key2"
  shows
    "(e_get_all eng (db self) = (es, final) \<longrightarrow>
        fst (pmemkv_get_all eng (db self) key_value_callback (PyFunction f) w) =
          PMEMKV_STATUS_STOPPED_BY_CB
        \<and> fst (pmemkv_NI_GetAll eng self [PyFunction f] w) = None
        \<and> curexc_type (snd (pmemkv_NI_GetAll eng self [PyFunction f] w)) = Some x
        \<and> curexc_value (snd (pmemkv_NI_GetAll eng self [PyFunction f] w)) = Some m)
     \<and> (e_get_above eng (db self) key1 = (es, final) \<longrightarrow>
        fst (pmemkv_NI_GetAbove eng self [a, PyFunction f] w) = None
        \<and> curexc_type (snd (pmemkv_NI_GetAbove eng self [a, PyFunction f] w)) = Some x
        \<and> curexc_value (snd (pmemkv_NI_GetAbove eng self [a, PyFunction f] w)) = Some m)
     \<and> (e_get_below eng (db self) key1 = (es, final) \<longrightarrow>
        fst (pmemkv_NI_GetBelow eng self [a, PyFunction f] w) = None
        \<and> curexc_type (snd (pmemkv_NI_GetBelow eng self [a, PyFunction f] w)) = Some x
        \<and> curexc_value (snd (pmemkv_NI_GetBelow eng self [a, PyFunction f] w)) = Some m)
     \<and> (e_get_between eng (db self) key1 key2 = (es, final) \<longrightarrow>
        fst (pmemkv_NI_GetBetween eng self [a, b, PyFunction f] w) = None
        \<and> curexc_type (snd (pmemkv_NI_GetBetween eng self [a, b, PyFunction f] w)) = Some x
        \<and> curexc_value (snd (pmemkv_NI_GetBetween eng self [a, b, PyFunction f] w)) = Some m)
     \<and> (e_get_all eng (db self) = (es, final) \<longrightarrow>
        fst (pmemkv_get_all eng (db self) key_callback (PyFunction g) w) =
          PMEMKV_STATUS_STOPPED_BY_CB
        \<and> fst (pmemkv_NI_GetKeys eng self [PyFunction g] w) = None
        \<and> curexc_type (snd (pmemkv_NI_GetKeys eng self [PyFunction g] w)) = Some x
        \<and> curexc_value (snd (pmemkv_NI_GetKeys eng self [PyFunction g] w)) = Some m)
     \<and> (e_get_above eng (db self) key1 = (es, final) \<longrightarrow>
        fst (pmemkv_NI_GetKeysAbove eng self [a, PyFunction g] w) = None
        \<and> curexc_type (snd (pmemkv_NI_GetKeysAbove eng self [a, PyFunction g] w)) = Some x
        \<and> curexc_value (snd (pmemkv_NI_GetKeysAbove eng self [a, PyFunction g] w)) = Some m)
     \<and> (e_get_below eng (db self) key1 = (es, final) \<longrightarrow>
        fst (pmemkv_NI_GetKeysBelow eng self [a, PyFunction g] w) = None
        \<and> curexc_type (snd (pmemkv_NI_GetKeysBelow eng self [a, PyFunction g] w)) = Some x
        \<and> curexc_value (snd (pmemkv_NI_GetKeysBelow eng self [a, PyFunction g] w)) = Some m)
     \<and> (e_get_between eng (db self) key1 key2 = (es, final) \<longrightarrow>
        fst (pmemkv_NI_GetKeysBetween eng self [a, b, PyFunction g] w) = None
        \<and> curexc_type (snd (pmemkv_NI_GetKeysBetween eng self [a, b, PyFunction g] w)) = Some x
        \<and> curexc_value (snd (pmemkv_NI_GetKeysBetween eng self [a, b, PyFunction g] w)) =
            Some m)"
proof -
  have kv: "fst (iterate key_value_callback (PyFunction f) es final (native name (db self) w)) =
        PMEMKV_STATUS_STOPPED_BY_CB
      \<and> curexc_type (snd (iterate key_value_callback (PyFunction f) es final
            (native name (db self) w))) = Some x
      \<and> curexc_value (snd (iterate key_value_callback (PyFunction f) es final
            (native name (db self) w))) = Some m" for name
    using iterate_key_values_stops [of "native name (db self) w" k es f x m final]
      ok clear k f_ret f_raise by simp
  have ks: "fst (iterate key_callback (PyFunction g) es final (native name (db self) w)) =
        PMEMKV_STATUS_STOPPED_BY_CB
      \<and> curexc_type (snd (iterate key_callback (PyFunction g) es final
            (native name (db self) w))) = Some x
      \<and> curexc_value (snd (iterate key_callback (PyFunction g) es final
            (native name (db self) w))) = Some m" for name
    using iterate_keys_stops [of "native name (db self) w" k es g x m final]
      ok clear k g_ret g_raise by simp
  have c1: "e_get_all eng (db self) = (es, final) \<longrightarrow>
        fst (pmemkv_get_all eng (db self) key_value_callback (PyFunction f) w) =
          PMEMKV_STATUS_STOPPED_BY_CB
        \<and> fst (pmemkv_NI_GetAll eng self [PyFunction f] w) = None
        \<and> curexc_type (snd (pmemkv_NI_GetAll eng self [PyFunction f] w)) = Some x
        \<and> curexc_value (snd (pmemkv_NI_GetAll eng self [PyFunction f] w)) = Some m"
    using kv [of "''pmemkv_get_all''"]
    by (simp add: pmemkv_NI_GetAll_def parse_O_def pmemkv_get_all_def case_prod_beta
        after_native_pending)
  have c2: "e_get_above eng (db self) key1 = (es, final) \<longrightarrow>
        fst (pmemkv_NI_GetAbove eng self [a, PyFunction f] w) = None
        \<and> curexc_type (snd (pmemkv_NI_GetAbove eng self [a, PyFunction f] w)) = Some x
        \<and> curexc_value (snd (pmemkv_NI_GetAbove eng self [a, PyFunction f] w)) = Some m"
    using kv [of "''pmemkv_get_above''"] a
    by (simp add: pmemkv_NI_GetAbove_def parse_sO_def pmemkv_get_above_def case_prod_beta
        after_native_pending)
  have c3: "e_get_below eng (db self) key1 = (es, final) \<longrightarrow>
        fst (pmemkv_NI_GetBelow eng self [a, PyFunction f] w) = None
        \<and> curexc_type (snd (pmemkv_NI_GetBelow eng self [a, PyFunction f] w)) = Some x
        \<and> curexc_value (snd (pmemkv_NI_GetBelow eng self [a, PyFunction f] w)) = Some m"
    using kv [of "''pmemkv_get_below''"] a
    by (simp add: pmemkv_NI_GetBelow_def parse_sO_def pmemkv_get_below_def case_prod_beta
        after_native_pending)
  have c4: "e_get_between eng (db self) key1 key2 = (es, final) \<longrightarrow>
        fst (pmemkv_NI_GetBetween eng self [a, b, PyFunction f] w) = None
        \<and> curexc_type (snd (pmemkv_NI_GetBetween eng self [a, b, PyFunction f] w)) = Some x
        \<and> curexc_value (snd (pmemkv_NI_GetBetween eng self [a, b, PyFunction f] w)) = Some m"
    using kv [of "''pmemkv_get_between''"] a b
    by (simp add: pmemkv_NI_GetBetween_def parse_ssO_def pmemkv_get_between_def
        case_prod_beta after_native_pending)
  have c5: "e_get_all eng (db self) = (es, final) \<longrightarrow>
        fst (pmemkv_get_all eng (db self) key_callback (PyFunction g) w) =
          PMEMKV_STATUS_STOPPED_BY_CB
        \<and> fst (pmemkv_NI_GetKeys eng self [PyFunction g] w) = None
        \<and> curexc_type (snd (pmemkv_NI_GetKeys eng self [PyFunction g] w)) = Some x
        \<and> curexc_value (snd (pmemkv_NI_GetKeys eng self [PyFunction g] w)) = Some m"
    using ks [of "''pmemkv_get_all''"]
    by (simp add: pmemkv_NI_GetKeys_def parse_O_def pmemkv_get_all_def case_prod_beta
        after_native_pending)
  have c6: "e_get_above eng (db self) key1 = (es, final) \<longrightarrow>
        fst (pmemkv_NI_GetKeysAbove eng self [a, PyFunction g] w) = None
        \<and> curexc_type (snd (pmemkv_NI_GetKeysAbove eng self [a, PyFunction g] w)) = Some x
        \<and> curexc_value (snd (pmemkv_NI_GetKeysAbove eng self [a, PyFunction g] w)) = Some m"
    using ks [of "''pmemkv_get_above''"] a
    by (simp add: pmemkv_NI_GetKeysAbove_def parse_sO_def pmemkv_get_above_def
        case_prod_beta after_native_pending)
  have c7: "e_get_below eng (db self) key1 = (es, final) \<longrightarrow>
        fst (pmemkv_NI_GetKeysBelow eng self [a, PyFunction g] w) = None
        \<and> curexc_type (snd (pmemkv_NI_GetKeysBelow eng self [a, PyFunction g] w)) = Some x
        \<and> curexc_value (snd (pmemkv_NI_GetKeysBelow eng self [a, PyFunction g] w)) = Some m"
    using ks [of "''pmemkv_get_below''"] a
    by (simp add: pmemkv_NI_GetKeysBelow_def parse_sO_def pmemkv_get_below_def
        case_prod_beta after_native_pending)
  have c8: "e_get_between eng (db self) key1 key2 = (es, final) \<longrightarrow>
        fst (pmemkv_NI_GetKeysBetween eng self [a, b, PyFunction g] w) = None
        \<and> curexc_type (snd (pmemkv_NI_GetKeysBetween eng self [a, b, PyFunction g] w)) = Some x
        \<and> curexc_value (snd (pmemkv_NI_GetKeysBetween eng self [a, b, PyFunction g] w)) =
            Some m"
    using ks [of "''pmemkv_get_between''"] a b
    by (simp add: pmemkv_NI_GetKeysBetween_def parse_ssO_def pmemkv_get_between_def
        case_prod_beta after_native_pending)
  from c1 c2 c3 c4 c5 c6 c7 c8 show ?thesis
    by blast
qed

text \<open>
  The scenario of the spec: three entries, a callable that raises \<open>ValueError\<close> on its
  second invocation. \<open>get_all\<close> and \<open>get_keys\<close> answer \<open>NULL\<close> with that \<open>ValueError\<close>.
\<close>

theorem callback_failure_resurfaces_witness:
  "fst (pmemkv_NI_GetAll example_engine \<lparr>db = Ptr 7\<rparr> [PyFunction raise_on_second]
         initial_interp) = None
   \<and> curexc_type (snd (pmemkv_NI_GetAll example_engine \<lparr>db = Ptr 7\<rparr>
         [PyFunction raise_on_second] initial_interp)) = Some PyExc_ValueError
   \<and> curexc_value (snd (pmemkv_NI_GetAll example_engine \<lparr>db = Ptr 7\<rparr>
         [PyFunction raise_on_second] initial_interp)) = Some ''boom''
   \<and> curexc_type (snd (pmemkv_NI_GetKeys example_engine \<lparr>db = Ptr 7\<rparr>
         [PyFunction raise_on_second] initial_interp)) = Some PyExc_ValueError"
proof -
  have ok: "api_ok initial_interp = []" and clear: "curexc_type initial_interp = None"
    by (simp_all add: initial_interp_def)
  have k: "(1::nat) < length example_entries"
    by (simp add: example_entries_def)
  have f_ret: "\<forall>j<1. outcome (raise_on_second (length (calls initial_interp) + j)
        [fst (example_entries ! j), snd (example_entries ! j)]) = Return"
    by (simp add: raise_on_second_def initial_interp_def)
  have f_raise: "outcome (raise_on_second (length (calls initial_interp) + 1)
        [fst (example_entries ! 1), snd (example_entries ! 1)]) = Raise PyExc_ValueError ''boom''"
    by (simp add: raise_on_second_def initial_interp_def)
  have g_ret: "\<forall>j<1. outcome (raise_on_second (length (calls initial_interp) + j)
        [fst (example_entries ! j)]) = Return"
    by (simp add: raise_on_second_def initial_interp_def)
  have g_raise: "outcome (raise_on_second (length (calls initial_interp) + 1)
        [fst (example_entries ! 1)]) = Raise PyExc_ValueError ''boom''"
    by (simp add: raise_on_second_def initial_interp_def)
  have a: "buffer_of (PyBytes ''a'') = Some ''a''"
    by (simp add: buffer_of_def)
  have e: "e_get_all example_engine (db \<lparr>db = Ptr 7\<rparr>) = (example_entries, PMEMKV_STATUS_OK)"
    by (simp add: example_engine_def)
  from callback_failure_resurfaces [OF ok clear k f_ret f_raise g_ret g_raise a a,
      of example_engine "\<lparr>db = Ptr 7\<rparr>" PMEMKV_STATUS_OK] e
  show ?thesis
    by simp
qed

subsection \<open>The abort signal of the iteration bridges\<close>

text \<open>
  C4. For every invocation of \<open>key_callback\<close> and of \<open>key_value_callback\<close>:
  \<^item> the bridge answers \<open>-1\<close> when an error is pending as it returns and \<open>0\<close> when none is;
  \<^item> when the bridge invokes the host callable and the callable raises, the answer is
    \<open>-1\<close>; when the callable returns (no error pending before), the answer is \<open>0\<close>;
  \<^item> with the runtime's allocations succeeding the bridge does invoke the callable, once,
    on the view of the key (and of the value);
  \<^item> in the engine's iteration, when the callable returns on the first \<open>n\<close> entries and
    raises on the next, the native call ends with "stopped by callback" and the callable
    has been invoked on the first \<open>n + 1\<close> entries and on no other.
\<close>

theorem bridge_abort_signal:
  "fst (key_callback k kb v vb ctx w) =
     (if curexc_type (snd (key_callback k kb v vb ctx w)) \<noteq> None then - 1 else 0)
   \<and> fst (key_value_callback k kb v vb ctx w) =
     (if curexc_type (snd (key_value_callback k kb v vb ctx w)) \<noteq> None then - 1 else 0)
   \<and> (calls (snd (key_callback k kb v vb (PyFunction g) w)) \<noteq> calls w \<and>
      outcome (g (length (calls w)) [(k, kb)]) = Raise x m \<longrightarrow>
        fst (key_callback k kb v vb (PyFunction g) w) = - 1)
   \<and> (calls (snd (key_callback k kb v vb (PyFunction g) w)) \<noteq> calls w \<and>
      curexc_type w = None \<and> outcome (g (length (calls w)) [(k, kb)]) = Return \<longrightarrow>
        fst (key_callback k kb v vb (PyFunction g) w) = 0)
   \<and> (calls (snd (key_value_callback k kb v vb (PyFunction f) w)) \<noteq> calls w \<and>
      outcome (f (length (calls w)) [(k, kb), (v, vb)]) = Raise x m \<longrightarrow>
        fst (key_value_callback k kb v vb (PyFunction f) w) = - 1)
   \<and> (calls (snd (key_value_callback k kb v vb (PyFunction f) w)) \<noteq> calls w \<and>
      curexc_type w = None \<and> outcome (f (length (calls w)) [(k, kb), (v, vb)]) = Return \<longrightarrow>
        fst (key_value_callback k kb v vb (PyFunction f) w) = 0)
   \<and> (api_ok w = [] \<longrightarrow>
        calls (snd (key_callback k kb v vb (PyFunction g) w)) = calls w @ [[(k, kb)]]
        \<and> calls (snd (key_value_callback k kb v vb (PyFunction f) w)) =
            calls w @ [[(k, kb), (v, vb)]])
   \<and> (api_ok w = [] \<and> curexc_type w = None \<and> n < length es \<and>
      e_get_all eng h = (es, final) \<and>
      (\<forall>j<n. outcome (f (length (calls w) + j) [fst (es ! j), snd (es ! j)]) = Return) \<and>
      outcome (f (length (calls w) + n) [fst (es ! n), snd (es ! n)]) = Raise x m \<longrightarrow>
        fst (pmemkv_get_all eng h key_value_callback (PyFunction f) w) =
          PMEMKV_STATUS_STOPPED_BY_CB
        \<and> calls (snd (pmemkv_get_all eng h key_value_callback (PyFunction f) w)) =
            calls w @ map (\<lambda>e. [fst e, snd e]) (take (Suc n) es))
   \<and> (api_ok w = [] \<and> curexc_type w = None \<and> n < length es \<and>
      e_get_all eng h = (es, final) \<and>
      (\<forall>j<n. outcome (g (length (calls w) + j) [fst (es ! j)]) = Return) \<and>
      outcome (g (length (calls w) + n) [fst (es ! n)]) = Raise x m \<longrightarrow>
        fst (pmemkv_get_all eng h key_callback (PyFunction g) w) =
          PMEMKV_STATUS_STOPPED_BY_CB
        \<and> calls (snd (pmemkv_get_all eng h key_callback (PyFunction g) w)) =
            calls w @ map (\<lambda>e. [fst e]) (take (Suc n) es))"
proof -
  have c1: "fst (key_callback k kb v vb ctx w) =
     (if curexc_type (snd (key_callback k kb v vb ctx w)) \<noteq> None then - 1 else 0)"
    by (rule key_callback_result)
  have c2: "fst (key_value_callback k kb v vb ctx w) =
     (if curexc_type (snd (key_value_callback k kb v vb ctx w)) \<noteq> None then - 1 else 0)"
    by (rule key_value_callback_result)
  have c3: "calls (snd (key_callback k kb v vb (PyFunction g) w)) \<noteq> calls w \<and>
      outcome (g (length (calls w)) [(k, kb)]) = Raise x m \<longrightarrow>
        fst (key_callback k kb v vb (PyFunction g) w) = - 1"
    using value_callback_cases [of k kb g w]
    by (auto simp add: key_callback_result key_callback_snd)
  have c4: "calls (snd (key_callback k kb v vb (PyFunction g) w)) \<noteq> calls w \<and>
      curexc_type w = None \<and> outcome (g (length (calls w)) [(k, kb)]) = Return \<longrightarrow>
        fst (key_callback k kb v vb (PyFunction g) w) = 0"
    using value_callback_cases [of k kb g w]
    by (auto simp add: key_callback_result key_callback_snd)
  have c5: "calls (snd (key_value_callback k kb v vb (PyFunction f) w)) \<noteq> calls w \<and>
      outcome (f (length (calls w)) [(k, kb), (v, vb)]) = Raise x m \<longrightarrow>
        fst (key_value_callback k kb v vb (PyFunction f) w) = - 1"
    using key_value_callback_cases [of k kb v vb f w]
    by (auto simp add: key_value_callback_result)
  have c6: "calls (snd (key_value_callback k kb v vb (PyFunction f) w)) \<noteq> calls w \<and>
      curexc_type w = None \<and> outcome (f (length (calls w)) [(k, kb), (v, vb)]) = Return \<longrightarrow>
        fst (key_value_callback k kb v vb (PyFunction f) w) = 0"
    using key_value_callback_cases [of k kb v vb f w]
    by (auto simp add: key_value_callback_result)
  have c7: "api_ok w = [] \<longrightarrow>
        calls (snd (key_callback k kb v vb (PyFunction g) w)) = calls w @ [[(k, kb)]]
        \<and> calls (snd (key_value_callback k kb v vb (PyFunction f) w)) =
            calls w @ [[(k, kb), (v, vb)]]"
    by (simp add: key_callback_snd value_callback_invokes key_value_callback_invokes)
  have c8: "api_ok w = [] \<and> curexc_type w = None \<and> n < length es \<and>
      e_get_all eng h = (es, final) \<and>
      (\<forall>j<n. outcome (f (length (calls w) + j) [fst (es ! j), snd (es ! j)]) = Return) \<and>
      outcome (f (length (calls w) + n) [fst (es ! n), snd (es ! n)]) = Raise x m \<longrightarrow>
        fst (pmemkv_get_all eng h key_value_callback (PyFunction f) w) =
          PMEMKV_STATUS_STOPPED_BY_CB
        \<and> calls (snd (pmemkv_get_all eng h key_value_callback (PyFunction f) w)) =
            calls w @ map (\<lambda>e. [fst e, snd e]) (take (Suc n) es)"
    using iterate_key_values_stops [of "native ''pmemkv_get_all'' h w" n es f x m final]
    by (simp add: pmemkv_get_all_def)
  have c9: "api_ok w = [] \<and> curexc_type w = None \<and> n < length es \<and>
      e_get_all eng h = (es, final) \<and>
      (\<forall>j<n. outcome (g (length (calls w) + j) [fst (es ! j)]) = Return) \<and>
      outcome (g (length (calls w) + n) [fst (es ! n)]) = Raise x m \<longrightarrow>
        fst (pmemkv_get_all eng h key_callback (PyFunction g) w) =
          PMEMKV_STATUS_STOPPED_BY_CB
        \<and> calls (snd (pmemkv_get_all eng h key_callback (PyFunction g) w)) =
            calls w @ map (\<lambda>e. [fst e]) (take (Suc n) es)"
    using iterate_keys_stops [of "native ''pmemkv_get_all'' h w" n es g x m final]
    by (simp add: pmemkv_get_all_def)
  from c1 c2 c3 c4 c5 c6 c7 c8 c9 show ?thesis
    by blast
qed

text \<open>
  The scenario of the spec again: of three entries, the callable sees the first two; it
  raises on the second and is not invoked on the third.
\<close>

theorem bridge_abort_signal_witness:
  "fst (pmemkv_get_all example_engine (Ptr 7) key_value_callback (PyFunction raise_on_second)
         initial_interp) = PMEMKV_STATUS_STOPPED_BY_CB
   \<and> calls (snd (pmemkv_get_all example_engine (Ptr 7) key_value_callback
         (PyFunction raise_on_second) initial_interp)) =
       [[(Ptr 10, 1), (Ptr 20, 2)], [(Ptr 30, 1), (Ptr 40, 2)]]
   \<and> calls (snd (pmemkv_get_all example_engine (Ptr 7) key_callback
         (PyFunction raise_on_second) initial_interp)) = [[(Ptr 10, 1)], [(Ptr 30, 1)]]
   \<and> fst (key_value_callback (Ptr 10) 1 (Ptr 20) 2 (PyFunction raise_on_second)
         initial_interp) = 0
   \<and> fst (key_value_callback (Ptr 30) 1 (Ptr 40) 2 (PyFunction raise_on_second)
         (initial_interp\<lparr>calls := [[(Ptr 10, 1), (Ptr 20, 2)]]\<rparr>)) = - 1"
proof -
  have e: "e_get_all example_engine (Ptr 7) = (example_entries, PMEMKV_STATUS_OK)"
    by (simp add: example_engine_def)
  have es: "map (\<lambda>e. [fst e, snd e]) (take (Suc 1) example_entries) =
        [[(Ptr 10, 1), (Ptr 20, 2)], [(Ptr 30, 1), (Ptr 40, 2)]]"
      "map (\<lambda>e. [fst e]) (take (Suc 1) example_entries) = [[(Ptr 10, 1)], [(Ptr 30, 1)]]"
    by (simp_all add: example_entries_def)
  have hyp: "api_ok initial_interp = [] \<and> curexc_type initial_interp = None \<and>
      1 < length example_entries \<and>
      (\<forall>j<1. outcome (raise_on_second (length (calls initial_interp) + j)
          [fst (example_entries ! j), snd (example_entries ! j)]) = Return) \<and>
      outcome (raise_on_second (length (calls initial_interp) + 1)
          [fst (example_entries ! 1), snd (example_entries ! 1)]) =
        Raise PyExc_ValueError ''boom'' \<and>
      (\<forall>j<1. outcome (raise_on_second (length (calls initial_interp) + j)
          [fst (example_entries ! j)]) = Return) \<and>
      outcome (raise_on_second (length (calls initial_interp) + 1)
          [fst (example_entries ! 1)]) = Raise PyExc_ValueError ''boom''"
    by (simp add: initial_interp_def example_entries_def raise_on_second_def)
  have first: "api_ok initial_interp = [] \<and> curexc_type initial_interp = None
      \<and> outcome (raise_on_second (length (calls initial_interp)) [(Ptr 10, 1), (Ptr 20, 2)]) =
          Return"
    by (simp add: initial_interp_def raise_on_second_def)
  have second: "api_ok (initial_interp\<lparr>calls := [[(Ptr 10, 1), (Ptr 20, 2)]]\<rparr>) = []
      \<and> outcome (raise_on_second
            (length (calls (initial_interp\<lparr>calls := [[(Ptr 10, 1), (Ptr 20, 2)]]\<rparr>)))
            [(Ptr 30, 1), (Ptr 40, 2)]) = Raise PyExc_ValueError ''boom''"
    by (simp add: initial_interp_def raise_on_second_def)
  note T1 = bridge_abort_signal [of "Ptr 10" 1 "Ptr 20" 2 "PyFunction raise_on_second"
      initial_interp raise_on_second PyExc_ValueError "''boom''" raise_on_second
      1 example_entries example_engine "Ptr 7" PMEMKV_STATUS_OK]
  note T2 = bridge_abort_signal [of "Ptr 30" 1 "Ptr 40" 2 "PyFunction raise_on_second"
      "initial_interp\<lparr>calls := [[(Ptr 10, 1), (Ptr 20, 2)]]\<rparr>" raise_on_second
      PyExc_ValueError "''boom''" raise_on_second
      1 example_entries example_engine "Ptr 7" PMEMKV_STATUS_OK]
  have none: "calls initial_interp = []"
    by (simp add: initial_interp_def)
  have A: "fst (pmemkv_get_all example_engine (Ptr 7) key_value_callback
          (PyFunction raise_on_second) initial_interp) = PMEMKV_STATUS_STOPPED_BY_CB
      \<and> calls (snd (pmemkv_get_all example_engine (Ptr 7) key_value_callback
          (PyFunction raise_on_second) initial_interp)) =
          calls initial_interp @ map (\<lambda>e. [fst e, snd e]) (take (Suc 1) example_entries)"
    using T1 [THEN conjunct2, THEN conjunct2, THEN conjunct2, THEN conjunct2,
      THEN conjunct2, THEN conjunct2, THEN conjunct2, THEN conjunct1] e hyp by blast
  have B: "calls (snd (pmemkv_get_all example_engine (Ptr 7) key_callback
          (PyFunction raise_on_second) initial_interp)) =
          calls initial_interp @ map (\<lambda>e. [fst e]) (take (Suc 1) example_entries)"
    using T1 [THEN conjunct2, THEN conjunct2, THEN conjunct2, THEN conjunct2,
      THEN conjunct2, THEN conjunct2, THEN conjunct2, THEN conjunct2] e hyp by blast
  have "calls (snd (key_value_callback (Ptr 10) 1 (Ptr 20) 2 (PyFunction raise_on_second)
          initial_interp)) = calls initial_interp @ [[(Ptr 10, 1), (Ptr 20, 2)]]"
    using T1 [THEN conjunct2, THEN conjunct2, THEN conjunct2, THEN conjunct2,
      THEN conjunct2, THEN conjunct2, THEN conjunct1] first by blast
  then have "calls (snd (key_value_callback (Ptr 10) 1 (Ptr 20) 2
          (PyFunction raise_on_second) initial_interp)) \<noteq> calls initial_interp"
    by simp
  with T1 [THEN conjunct2, THEN conjunct2, THEN conjunct2, THEN conjunct2,
      THEN conjunct2, THEN conjunct1] first have C: "fst (key_value_callback (Ptr 10) 1 (Ptr 20) 2
          (PyFunction raise_on_second) initial_interp) = 0"
    by blast
  have "calls (snd (key_value_callback (Ptr 30) 1 (Ptr 40) 2 (PyFunction raise_on_second)
          (initial_interp\<lparr>calls := [[(Ptr 10, 1), (Ptr 20, 2)]]\<rparr>))) =
        calls (initial_interp\<lparr>calls := [[(Ptr 10, 1), (Ptr 20, 2)]]\<rparr>)
          @ [[(Ptr 30, 1), (Ptr 40, 2)]]"
    using T2 [THEN conjunct2, THEN conjunct2, THEN conjunct2, THEN conjunct2,
      THEN conjunct2, THEN conjunct2, THEN conjunct1] second by blast
  then have "calls (snd (key_value_callback (Ptr 30) 1 (Ptr 40) 2
          (PyFunction raise_on_second)
          (initial_interp\<lparr>calls := [[(Ptr 10, 1), (Ptr 20, 2)]]\<rparr>))) \<noteq>
        calls (initial_interp\<lparr>calls := [[(Ptr 10, 1), (Ptr 20, 2)]]\<rparr>)"
    by simp
  with T2 [THEN conjunct2, THEN conjunct2, THEN conjunct2, THEN conjunct2,
      THEN conjunct1] second have D: "fst (key_value_callback (Ptr 30) 1 (Ptr 40) 2
          (PyFunction raise_on_second)
          (initial_interp\<lparr>calls := [[(Ptr 10, 1), (Ptr 20, 2)]]\<rparr>)) = - 1"
    by blast
  from A B C D es none show ?thesis
    by simp
qed
subsection \<open>Where the process can end\<close>

text \<open>
  The only call through a null pointer is \<open>PyErr_SetString\<close> with a null class, in the
  failure path of a method. The reference counting, the runtime calls of the bridges, the
  bridges themselves and the engine's loop over them never end the process.
\<close>

lemma refcount_segfault [simp]:
  "segfault (Py_INCREF i w) = segfault w"
  "segfault (Py_DECREF i w) = segfault w"
  "segfault (Py_XDECREF p w) = segfault w"
  "segfault (set_view i ptr n w) = segfault w"
  "segfault (retain args pos w) = segfault w"
  by (simp_all add: Py_INCREF_def Py_DECREF_def Py_XDECREF_def set_view_def retain_def
      split: option.splits)

lemma fold_retain_segfault [simp]:
  "segfault (fold (retain args) ps w) = segfault w"
  by (induction ps arbitrary: w) simp_all

lemma tuple_dealloc_segfault [simp]:
  "segfault (tuple_dealloc t w) = segfault w"
  by (induction t arbitrary: w) simp_all

lemma runtime_segfault [simp]:
  "segfault (PyErr_SetString (Some e) msg w) = segfault w"
  "segfault (PyErr_Restore t v w) = segfault w"
  "segfault (PyErr_NoMemory w) = segfault w"
  "segfault (snd (next_ok w)) = segfault w"
  "segfault (snd (PyObject_New w)) = segfault w"
  "segfault (snd (PyTuple_New n w)) = segfault w"
  "segfault (snd (snd (PyTuple_SetItem tup pos ob w))) = segfault w"
  "segfault (snd (PyObject_CallObject ctx args w)) = segfault w"
  by (simp_all add: PyErr_SetString_def PyErr_Restore_def PyErr_NoMemory_def next_ok_eq
      PyObject_New_def PyTuple_New_def PyTuple_SetItem_def PyObject_CallObject_def Let_def
      split: bool.splits pyobj.splits host_outcome.splits option.splits)

lemma bridges_segfault [simp]:
  "segfault (value_callback p n ctx w) = segfault w"
  "segfault (snd (key_callback k kb v vb ctx w)) = segfault w"
  "segfault (snd (key_value_callback k kb v vb ctx w)) = segfault w"
  by (simp_all add: value_callback_def key_callback_def key_value_callback_def
      case_prod_beta Let_def split: option.splits)

lemma iterate_segfault:
  assumes "\<And>k kb v vb a w. segfault (snd (cb k kb v vb a w)) = segfault w"
  shows "segfault (snd (iterate cb arg es final w)) = segfault w"
  by (induction es arbitrary: w) (simp_all add: case_prod_beta assms)


subsection \<open>Module initialisation\<close>

lemma next_ok_fields [simp]:
  "created (snd (next_ok w)) = created w"
  "ExceptionDispatcher (snd (next_ok w)) = ExceptionDispatcher w"
  "PmemkvException (snd (next_ok w)) = PmemkvException w"
  by (simp_all add: next_ok_eq)

lemma PyModule_AddObject_fields [simp]:
  "created (snd (snd (PyModule_AddObject m name val w))) = created w"
  "ExceptionDispatcher (snd (snd (PyModule_AddObject m name val w))) = ExceptionDispatcher w"
  "PmemkvException (snd (snd (PyModule_AddObject m name val w))) = PmemkvException w"
  by (simp_all add: PyModule_AddObject_def next_ok_eq PyErr_NoMemory_def
      split: option.splits bool.splits)

lemma PyModule_AddObject_ok:
  "\<not> fst (PyModule_AddObject m name val w) < 0 \<Longrightarrow> val \<noteq> None"
  by (auto simp add: PyModule_AddObject_def split: option.splits)

lemma PyErr_NewExceptionWithDoc_fields [simp]:
  "ExceptionDispatcher (snd (PyErr_NewExceptionWithDoc name doc base w)) =
     ExceptionDispatcher w"
  "PmemkvException (snd (PyErr_NewExceptionWithDoc name doc base w)) = PmemkvException w"
  by (simp_all add: PyErr_NewExceptionWithDoc_def next_ok_eq PyErr_NoMemory_def
      split: option.splits bool.splits)

lemma PyErr_NewExceptionWithDoc_ok:
  assumes "fst (PyErr_NewExceptionWithDoc name doc base w) \<noteq> None"
  shows "fst (PyErr_NewExceptionWithDoc name doc base w) =
           Some (NewException (the name) doc base)"
    and "created (snd (PyErr_NewExceptionWithDoc name doc base w)) =
           created w @ [NewException (the name) doc base]"
  using assms
  by (auto simp add: PyErr_NewExceptionWithDoc_def next_ok_eq PyErr_NoMemory_def
      split: option.splits bool.splits)

text \<open>
  The loop over the table, when it completes: every entry without an exception now holds
  a new class of its \<open>exception_name\<close> and docstring under the base, every other entry
  is as it was, and the classes created are those, in order.
\<close>

lemma register_exceptions_success:
  "register_exceptions base es m w = (True, es', m', w') \<Longrightarrow>
     es' = map (\<lambda>ce. (fst ce,
                 if exception (snd ce) = None
                 then (snd ce)\<lparr>exception :=
                         Some (NewException (the (exception_name (snd ce)))
                                 (docstring (snd ce)) base)\<rparr>
                 else snd ce)) es
     \<and> created w' = created w @
          map (\<lambda>ce. NewException (the (exception_name (snd ce))) (docstring (snd ce)) base)
            (filter (\<lambda>ce. exception (snd ce) = None) es)
     \<and> PmemkvException w' = PmemkvException w"
proof (induction es arbitrary: m w es' m' w')
  case Nil
  then show ?case by simp
next
  case (Cons ce es)
  show ?case
  proof (cases "exception (snd ce) = None")
    case False
    with Cons.prems obtain es1 where
        r: "register_exceptions base es m w = (True, es1, m', w')" and e: "es' = ce # es1"
      by (auto split: prod.splits)
    from Cons.IH [OF r] e False show ?thesis
      by auto
  next
    case True
    let ?X = "PyErr_NewExceptionWithDoc (exception_name (snd ce)) (docstring (snd ce)) base w"
    let ?A = "PyModule_AddObject m (object_name (snd ce)) (map_option ExceptionObject (fst ?X))
                (snd ?X)"
    let ?R = "register_exceptions base es (fst (snd ?A)) (snd (snd ?A))"
    from Cons.prems True have added: "\<not> fst ?A < 0"
      by (auto simp add: case_prod_beta split: if_splits)
    with Cons.prems True have r: "?R = (True, fst (snd ?R), m', w')"
      and e: "es' = (fst ce, (snd ce)\<lparr>exception := fst ?X\<rparr>) # fst (snd ?R)"
      by (auto simp add: case_prod_beta prod_eq_iff split: if_splits)
    from added have made: "fst ?X \<noteq> None"
      using PyModule_AddObject_ok by fastforce
    note x = PyErr_NewExceptionWithDoc_ok [OF made]
    from Cons.IH [OF r] e x True show ?thesis
      by simp
  qed
qed

lemma PyType_Ready_fields [simp]:
  "created (snd (PyType_Ready w)) = created w"
  "ExceptionDispatcher (snd (PyType_Ready w)) = ExceptionDispatcher w"
  by (simp_all add: PyType_Ready_def)

lemma PyModule_Create_fields [simp]:
  "created (snd (PyModule_Create w)) = created w"
  "ExceptionDispatcher (snd (PyModule_Create w)) = ExceptionDispatcher w"
  by (simp_all add: PyModule_Create_def next_ok_eq PyErr_NoMemory_def split: bool.splits)

text \<open>
  A completed \<open>PyInit__pmemkv\<close>: the root class was created, and the loop completed on
  the table as it stood, under that root.
\<close>

lemma PyInit_success:
  assumes init: "PyInit__pmemkv w = (Module m, w')"
  shows "ExceptionDispatcher w' =
           map (\<lambda>ce. (fst ce,
                 if exception (snd ce) = None
                 then (snd ce)\<lparr>exception :=
                         Some (NewException (the (exception_name (snd ce)))
                                 (docstring (snd ce))
                                 (Some (NewException ''pmemkv_NI.PmemkvException'' None None)))\<rparr>
                 else snd ce)) (ExceptionDispatcher w)"
    and "created w' = created w @
           NewException ''pmemkv_NI.PmemkvException'' None None #
           map (\<lambda>ce. NewException (the (exception_name (snd ce))) (docstring (snd ce))
                        (Some (NewException ''pmemkv_NI.PmemkvException'' None None)))
             (filter (\<lambda>ce. exception (snd ce) = None) (ExceptionDispatcher w))"
    and "PmemkvException w' = Some (NewException ''pmemkv_NI.PmemkvException'' None None)"
proof -
  let ?root = "NewException ''pmemkv_NI.PmemkvException'' None None"
  let ?T = "PyType_Ready w"
  let ?C = "PyModule_Create (snd ?T)"
  let ?A0 = "PyModule_AddObject (the (fst ?C)) (Some ''pmemkv_NI'')
               (Some (TypeObject ''pmemkv.pmemkv_NI'')) (snd ?C)"
  let ?X = "PyErr_NewException (Some ''pmemkv_NI.PmemkvException'') None (snd (snd ?A0))"
  let ?A1 = "PyModule_AddObject (fst (snd ?A0)) (Some ''Error'')
               (map_option ExceptionObject (fst ?X)) ((snd ?X)\<lparr>PmemkvException := fst ?X\<rparr>)"
  let ?R = "register_exceptions (PmemkvException (snd (snd ?A1)))
               (ExceptionDispatcher (snd (snd ?A1))) (fst (snd ?A1)) (snd (snd ?A1))"
  from init have a1: "\<not> fst ?A1 < 0" and r: "fst ?R"
    and w': "w' = (snd (snd (snd ?R)))\<lparr>ExceptionDispatcher := fst (snd ?R)\<rparr>"
    by (auto simp add: PyInit__pmemkv_def case_prod_beta
        split: bool.splits option.splits if_splits)
  from a1 have "fst ?X \<noteq> None"
    using PyModule_AddObject_ok by fastforce
  then have x: "fst ?X = Some ?root" "created (snd ?X) = created w @ [?root]"
    using PyErr_NewExceptionWithDoc_ok [of "Some ''pmemkv_NI.PmemkvException''" None None
        "snd (snd ?A0)"]
    by (simp_all add: PyErr_NewException_def)
  have base: "PmemkvException (snd (snd ?A1)) = Some ?root"
    and tbl: "ExceptionDispatcher (snd (snd ?A1)) = ExceptionDispatcher w"
    and cr: "created (snd (snd ?A1)) = created w @ [?root]"
    using x by (simp_all add: PyErr_NewException_def)
  from r have "?R = (True, fst (snd ?R), fst (snd (snd ?R)), snd (snd (snd ?R)))"
    by (simp add: prod_eq_iff)
  note loop = register_exceptions_success [OF this]
  from loop w' base tbl
  show "ExceptionDispatcher w' =
           map (\<lambda>ce. (fst ce,
                 if exception (snd ce) = None
                 then (snd ce)\<lparr>exception :=
                         Some (NewException (the (exception_name (snd ce)))
                                 (docstring (snd ce)) (Some ?root))\<rparr>
                 else snd ce)) (ExceptionDispatcher w)"
    by simp
  from loop w' base tbl cr
  show "created w' = created w @ ?root #
           map (\<lambda>ce. NewException (the (exception_name (snd ce))) (docstring (snd ce))
                        (Some ?root))
             (filter (\<lambda>ce. exception (snd ce) = None) (ExceptionDispatcher w))"
    by simp
  from loop w' base show "PmemkvException w' = Some ?root"
    by simp
qed
text \<open>
  After a completed initialisation on the table of the initialiser, every entry of the
  table holds an exception class, and the table has entries for the same codes as before.
\<close>

lemma PyInit_entries_have_class:
  assumes tbl: "ExceptionDispatcher w = ExceptionDispatcher_initializer"
    and init: "PyInit__pmemkv w = (Module m, w')"
  shows "\<forall>ce \<in> set (ExceptionDispatcher w'). exception (snd ce) \<noteq> None"
    and "map fst (ExceptionDispatcher w') = map fst ExceptionDispatcher_initializer"
    and "map_of (ExceptionDispatcher w') st = None \<longleftrightarrow>
           st \<notin> fst ` set ExceptionDispatcher_initializer"
proof -
  note s = PyInit_success(1) [OF init, unfolded tbl]
  show "\<forall>ce \<in> set (ExceptionDispatcher w'). exception (snd ce) \<noteq> None"
    by (simp add: s)
  show keys: "map fst (ExceptionDispatcher w') = map fst ExceptionDispatcher_initializer"
    by (simp add: s comp_def)
  have "map_of (ExceptionDispatcher w') st = None \<longleftrightarrow>
      st \<notin> set (map fst (ExceptionDispatcher w'))"
    by (simp add: map_of_eq_None_iff)
  then show "map_of (ExceptionDispatcher w') st = None \<longleftrightarrow>
      st \<notin> fst ` set ExceptionDispatcher_initializer"
    by (simp only: keys set_map)
qed


text \<open>
  C6. After a completed module initialisation on the table of the initialiser:
  \<^item> the table has the same codes; NOT\_FOUND dispatches to the host's \<open>KeyError\<close> and
    OUT\_OF\_MEMORY to the host's \<open>MemoryError\<close>;
  \<^item> every other entry of the table dispatches to a class made by
    \<open>PyErr_NewExceptionWithDoc\<close> from its \<open>exception_name\<close> and docstring, with the root
    class \<open>PmemkvException\<close> as its base;
  \<^item> the classes created by the initialisation are the root and then exactly the classes
    of those entries, each one once; a later lookup creates none.
\<close>

theorem init_dispatcher_exceptions:
  assumes tbl: "ExceptionDispatcher w = ExceptionDispatcher_initializer"
    and init: "PyInit__pmemkv w = (Module m, w')"
  shows
    "PmemkvException w' = Some (NewException ''pmemkv_NI.PmemkvException'' None None)
     \<and> map fst (ExceptionDispatcher w') = map fst ExceptionDispatcher_initializer
     \<and> exception (fst (dispatcher_at PMEMKV_STATUS_NOT_FOUND w')) = Some PyExc_KeyError
     \<and> exception (fst (dispatcher_at PMEMKV_STATUS_OUT_OF_MEMORY w')) = Some PyExc_MemoryError
     \<and> (\<forall>ce \<in> set (ExceptionDispatcher w').
          fst ce \<noteq> PMEMKV_STATUS_NOT_FOUND \<and> fst ce \<noteq> PMEMKV_STATUS_OUT_OF_MEMORY \<longrightarrow>
            dispatcher_at (fst ce) w' = (snd ce, w')
            \<and> (\<exists>name. exception_name (snd ce) = Some name
                 \<and> exception (snd ce) =
                     Some (NewException name (docstring (snd ce))
                             (Some (NewException ''pmemkv_NI.PmemkvException'' None None)))))
     \<and> created w' = created w @
          NewException ''pmemkv_NI.PmemkvException'' None None #
          List.map_filter
            (\<lambda>ce. if fst ce = PMEMKV_STATUS_NOT_FOUND \<or> fst ce = PMEMKV_STATUS_OUT_OF_MEMORY
                   then None else exception (snd ce))
            (ExceptionDispatcher w')
     \<and> distinct (NewException ''pmemkv_NI.PmemkvException'' None None #
          List.map_filter
            (\<lambda>ce. if fst ce = PMEMKV_STATUS_NOT_FOUND \<or> fst ce = PMEMKV_STATUS_OUT_OF_MEMORY
                   then None else exception (snd ce))
            (ExceptionDispatcher w'))
     \<and> created (snd (dispatcher_at code w')) = created w'"
proof -
  note s = PyInit_success [OF init, unfolded tbl]
  have c1: "PmemkvException w' = Some (NewException ''pmemkv_NI.PmemkvException'' None None)"
    by (rule s(3))
  have c2: "map fst (ExceptionDispatcher w') = map fst ExceptionDispatcher_initializer"
    by (simp add: s(1) comp_def)
  have keys: "distinct (map fst (ExceptionDispatcher w'))"
    by (simp add: c2 ExceptionDispatcher_initializer_def status_defs)
  have lookup: "dispatcher_at (fst ce) w' = (snd ce, w')"
    if "ce \<in> set (ExceptionDispatcher w')" for ce
  proof -
    from that have "(fst ce, snd ce) \<in> set (ExceptionDispatcher w')"
      by simp
    with keys have "map_of (ExceptionDispatcher w') (fst ce) = Some (snd ce)"
      by (simp only: map_of_eq_Some_iff)
    then show ?thesis
      by (simp add: dispatcher_at_def)
  qed
  have nf: "(PMEMKV_STATUS_NOT_FOUND,
        builtin_entry PyExc_KeyError ''Database entry or config item not found'')
      \<in> set (ExceptionDispatcher w')"
    and oom: "(PMEMKV_STATUS_OUT_OF_MEMORY,
        builtin_entry PyExc_MemoryError
          ''Operation failed because there is not enough memory (or space on the device)'')
      \<in> set (ExceptionDispatcher w')"
    by (simp_all add: s(1) ExceptionDispatcher_initializer_def image_iff builtin_entry_def)
  have c3: "exception (fst (dispatcher_at PMEMKV_STATUS_NOT_FOUND w')) = Some PyExc_KeyError"
    using lookup [OF nf] by (simp add: builtin_entry_def)
  have c4: "exception (fst (dispatcher_at PMEMKV_STATUS_OUT_OF_MEMORY w')) =
      Some PyExc_MemoryError"
    using lookup [OF oom] by (simp add: builtin_entry_def)
  have dyn: "\<forall>ce \<in> set ExceptionDispatcher_initializer.
      fst ce \<noteq> PMEMKV_STATUS_NOT_FOUND \<and> fst ce \<noteq> PMEMKV_STATUS_OUT_OF_MEMORY \<longrightarrow>
        exception (snd ce) = None \<and> (\<exists>name. exception_name (snd ce) = Some name)"
    by (simp add: ExceptionDispatcher_initializer_def dynamic_entry_def)
  have c5: "\<forall>ce \<in> set (ExceptionDispatcher w').
          fst ce \<noteq> PMEMKV_STATUS_NOT_FOUND \<and> fst ce \<noteq> PMEMKV_STATUS_OUT_OF_MEMORY \<longrightarrow>
            dispatcher_at (fst ce) w' = (snd ce, w')
            \<and> (\<exists>name. exception_name (snd ce) = Some name
                 \<and> exception (snd ce) =
                     Some (NewException name (docstring (snd ce))
                             (Some (NewException ''pmemkv_NI.PmemkvException'' None None))))"
  proof (intro ballI impI)
    fix ce
    assume ce: "ce \<in> set (ExceptionDispatcher w')"
      and other: "fst ce \<noteq> PMEMKV_STATUS_NOT_FOUND \<and> fst ce \<noteq> PMEMKV_STATUS_OUT_OF_MEMORY"
    from ce obtain ce0 where ce0: "ce0 \<in> set ExceptionDispatcher_initializer"
      and eq: "ce = (fst ce0,
                 if exception (snd ce0) = None
                 then (snd ce0)\<lparr>exception :=
                         Some (NewException (the (exception_name (snd ce0)))
                                 (docstring (snd ce0))
                                 (Some (NewException ''pmemkv_NI.PmemkvException'' None None)))\<rparr>
                 else snd ce0)"
      unfolding s(1) by auto
    from eq other have "fst ce0 \<noteq> PMEMKV_STATUS_NOT_FOUND
        \<and> fst ce0 \<noteq> PMEMKV_STATUS_OUT_OF_MEMORY"
      by simp
    with dyn ce0 obtain name where "exception (snd ce0) = None"
      and "exception_name (snd ce0) = Some name"
      by blast
    with eq have "exception_name (snd ce) = Some name
        \<and> exception (snd ce) =
            Some (NewException name (docstring (snd ce))
                    (Some (NewException ''pmemkv_NI.PmemkvException'' None None)))"
      by simp
    with lookup [OF ce]
    show "dispatcher_at (fst ce) w' = (snd ce, w')
            \<and> (\<exists>name. exception_name (snd ce) = Some name
                 \<and> exception (snd ce) =
                     Some (NewException name (docstring (snd ce))
                             (Some (NewException ''pmemkv_NI.PmemkvException'' None None))))"
      by blast
  qed
  have c6: "created w' = created w @
          NewException ''pmemkv_NI.PmemkvException'' None None #
          List.map_filter
            (\<lambda>ce. if fst ce = PMEMKV_STATUS_NOT_FOUND \<or> fst ce = PMEMKV_STATUS_OUT_OF_MEMORY
                   then None else exception (snd ce))
            (ExceptionDispatcher w')"
    by (simp add: s(1) s(2) ExceptionDispatcher_initializer_def
        dynamic_entry_def builtin_entry_def status_defs List.map_filter_simps)
  have c7: "distinct (NewException ''pmemkv_NI.PmemkvException'' None None #
          List.map_filter
            (\<lambda>ce. if fst ce = PMEMKV_STATUS_NOT_FOUND \<or> fst ce = PMEMKV_STATUS_OUT_OF_MEMORY
                   then None else exception (snd ce))
            (ExceptionDispatcher w'))"
    by (simp add: s(1) ExceptionDispatcher_initializer_def
        dynamic_entry_def builtin_entry_def status_defs List.map_filter_simps)
  have c8: "created (snd (dispatcher_at code w')) = created w'"
    by (simp add: dispatcher_at_def split: option.splits)
  from c1 c2 c3 c4 c5 c6 c7 c8 show ?thesis
    by blast
qed

theorem init_dispatcher_exceptions_witness:
  "fst (PyInit__pmemkv initial_interp) =
     Module
       [(''pmemkv_NI'', TypeObject ''pmemkv.pmemkv_NI''),
        (''Error'', ExceptionObject (NewException ''pmemkv_NI.PmemkvException'' None None)),
        (''UnknownError'', ExceptionObject (NewException ''pmemkv_NI.UnknownError''
           (Some ''Something unexpected happened'')
           (Some (NewException ''pmemkv_NI.PmemkvException'' None None)))),
        (''NotSupported'', ExceptionObject (NewException ''pmemkv_NI.NotSupported''
           (Some ''Function is not implemented by current engine'')
           (Some (NewException ''pmemkv_NI.PmemkvException'' None None)))),
        (''InvalidArgument'', ExceptionObject (NewException ''pmemkv_NI.InvalidArgument''
           (Some ''Argument to function has wrong value'')
           (Some (NewException ''pmemkv_NI.PmemkvException'' None None)))),
        (''ConfigParsingError'', ExceptionObject (NewException ''pmemkv_NI.ConfigParsingError''
           (Some ''Processing config failed'')
           (Some (NewException ''pmemkv_NI.PmemkvException'' None None)))),
        (''ConfigTypeError'', ExceptionObject (NewException ''pmemkv_NI.ConfigTypeError''
           (Some ''Config item has different type than expected'')
           (Some (NewException ''pmemkv_NI.PmemkvException'' None None)))),
        (''StoppedByCallback'', ExceptionObject (NewException ''pmemkv_NI.StoppedByCallback''
           (Some ''Callback function aborted in an unexpected way'')
           (Some (NewException ''pmemkv_NI.PmemkvException'' None None)))),
        (''WrongEngineName'', ExceptionObject (NewException ''pmemkv_NI.WrongEngineName''
           (Some ''Engine name does not match any available engine'')
           (Some (NewException ''pmemkv_NI.PmemkvException'' None None)))),
        (''TransactionScopeError'', ExceptionObject
           (NewException ''pmemkv_NI.TransactionScopeError''
           (Some ''An error with the scope of the libpmemobj transaction. This exception is defined for compatibility with pmemkv API and probably will never occur'')
           (Some (NewException ''pmemkv_NI.PmemkvException'' None None))))]
   \<and> PmemkvException (snd (PyInit__pmemkv initial_interp)) =
       Some (NewException ''pmemkv_NI.PmemkvException'' None None)
   \<and> exception (fst (dispatcher_at PMEMKV_STATUS_NOT_FOUND
        (snd (PyInit__pmemkv initial_interp)))) = Some PyExc_KeyError
   \<and> exception (fst (dispatcher_at PMEMKV_STATUS_OUT_OF_MEMORY
        (snd (PyInit__pmemkv initial_interp)))) = Some PyExc_MemoryError"
proof -
  have run: "fst (PyInit__pmemkv initial_interp) =
     Module
       [(''pmemkv_NI'', TypeObject ''pmemkv.pmemkv_NI''),
        (''Error'', ExceptionObject (NewException ''pmemkv_NI.PmemkvException'' None None)),
        (''UnknownError'', ExceptionObject (NewException ''pmemkv_NI.UnknownError''
           (Some ''Something unexpected happened'')
           (Some (NewException ''pmemkv_NI.PmemkvException'' None None)))),
        (''NotSupported'', ExceptionObject (NewException ''pmemkv_NI.NotSupported''
           (Some ''Function is not implemented by current engine'')
           (Some (NewException ''pmemkv_NI.PmemkvException'' None None)))),
        (''InvalidArgument'', ExceptionObject (NewException ''pmemkv_NI.InvalidArgument''
           (Some ''Argument to function has wrong value'')
           (Some (NewException ''pmemkv_NI.PmemkvException'' None None)))),
        (''ConfigParsingError'', ExceptionObject (NewException ''pmemkv_NI.ConfigParsingError''
           (Some ''Processing config failed'')
           (Some (NewException ''pmemkv_NI.PmemkvException'' None None)))),
        (''ConfigTypeError'', ExceptionObject (NewException ''pmemkv_NI.ConfigTypeError''
           (Some ''Config item has different type than expected'')
           (Some (NewException ''pmemkv_NI.PmemkvException'' None None)))),
        (''StoppedByCallback'', ExceptionObject (NewException ''pmemkv_NI.StoppedByCallback''
           (Some ''Callback function aborted in an unexpected way'')
           (Some (NewException ''pmemkv_NI.PmemkvException'' None None)))),
        (''WrongEngineName'', ExceptionObject (NewException ''pmemkv_NI.WrongEngineName''
           (Some ''Engine name does not match any available engine'')
           (Some (NewException ''pmemkv_NI.PmemkvException'' None None)))),
        (''TransactionScopeError'', ExceptionObject
           (NewException ''pmemkv_NI.TransactionScopeError''
           (Some ''An error with the scope of the libpmemobj transaction. This exception is defined for compatibility with pmemkv API and probably will never occur'')
           (Some (NewException ''pmemkv_NI.PmemkvException'' None None))))]"
    by code_simp
  then obtain m where init: "PyInit__pmemkv initial_interp =
      (Module m, snd (PyInit__pmemkv initial_interp))"
    by (simp add: prod_eq_iff)
  have tbl: "ExceptionDispatcher initial_interp = ExceptionDispatcher_initializer"
    by (simp add: initial_interp_def)
  note T = init_dispatcher_exceptions [OF tbl init, of PMEMKV_STATUS_OK]
  from T run show ?thesis
    by blast
qed

subsection \<open>Methods on an unopened or closed engine\<close>

lemma runtime_native_calls [simp]:
  "native_calls (PyErr_SetString t msg w) = native_calls w"
  "native_calls (PyErr_NoMemory w) = native_calls w"
  "native_calls (snd (next_ok w)) = native_calls w"
  "native_calls (snd (PyObject_New w)) = native_calls w"
  "native_calls (snd (PyTuple_New n w)) = native_calls w"
  "native_calls (snd (snd (PyTuple_SetItem tup pos ob w))) = native_calls w"
  "native_calls (snd (PyObject_CallObject ctx args w)) = native_calls w"
  by (simp_all add: PyErr_SetString_msgs PyErr_Restore_def PyErr_NoMemory_def next_ok_eq
      PyObject_New_def
      PyTuple_New_def PyTuple_SetItem_def PyObject_CallObject_def Let_def
      split: bool.splits pyobj.splits host_outcome.splits)

lemma value_callback_native_calls [simp]:
  "native_calls (value_callback p n ctx w) = native_calls w"
  by (simp add: value_callback_def case_prod_beta Let_def split: option.splits)




lemma after_native_native_calls [simp]:
  "native_calls (snd (after_native eng r w)) = native_calls w"
  by (simp add: after_native_def raise_status_result)

lemma count_result_native_calls [simp]:
  "native_calls (snd (count_result eng rc w)) = native_calls w"
  by (simp add: count_result_def raise_status_result case_prod_beta)



end
